theory Spec2Isabelle
  imports Main "HOL-Library.Char_ord" "HOL-Library.List_Lexorder" "HOL-Library.Product_Lexorder"
begin

section \<open>Python strings\<close>

text \<open>
  A Python \<^verbatim>\<open>str\<close> is modelled as a \<^typ>\<open>string\<close>, a list of 8-bit characters read as
  the code points U+0000 to U+00FF. The library functions below follow CPython 3.11
  on such strings.
\<close>

text \<open>\<^verbatim>\<open>str.isspace\<close> on one character: the white space of Latin-1.\<close>

definition py_isspace :: "char \<Rightarrow> bool" where
  "py_isspace c = (c \<in> set [CHR 0x09, CHR 0x0A, CHR 0x0B, CHR 0x0C, CHR 0x0D, CHR 0x1C,
     CHR 0x1D, CHR 0x1E, CHR 0x1F, CHR 0x20, CHR 0x85, CHR 0xA0])"

text \<open>\<^verbatim>\<open>s.strip()\<close>\<close>

definition strip :: "string \<Rightarrow> string" where
  "strip s = rev (dropWhile py_isspace (rev (dropWhile py_isspace s)))"

text \<open>\<^verbatim>\<open>s.startswith(p)\<close> and \<^verbatim>\<open>s.endswith(p)\<close>\<close>

definition startswith :: "'a list \<Rightarrow> 'a list \<Rightarrow> bool" where
  "startswith s p = (take (length p) s = p)"

definition endswith :: "string \<Rightarrow> string \<Rightarrow> bool" where
  "endswith s p = (length p \<le> length s \<and> drop (length s - length p) s = p)"

text \<open>\<^verbatim>\<open>s.lower()\<close>: A-Z and the upper-case letters of Latin-1 (U+00C0 to U+00DE but U+00D7)
  move up by 32.\<close>

definition lower_char :: "char \<Rightarrow> char" where
  "lower_char c = (let n = (of_char c :: nat) in
     if (65 \<le> n \<and> n \<le> 90) \<or> (192 \<le> n \<and> n \<le> 222 \<and> n \<noteq> 215) then char_of (n + 32) else c)"

definition lower :: "string \<Rightarrow> string" where
  "lower s = map lower_char s"

text \<open>\<^verbatim>\<open>s.split(d)\<close> for a one-character separator, and \<^verbatim>\<open>sep.join(xs)\<close>.\<close>

fun split_on :: "char \<Rightarrow> string \<Rightarrow> string list" where
  "split_on d [] = [[]]"
| "split_on d (c # cs) =
     (if c = d then [] # split_on d cs
      else (case split_on d cs of [] \<Rightarrow> [[c]] | p # ps \<Rightarrow> (c # p) # ps))"

fun join :: "string \<Rightarrow> string list \<Rightarrow> string" where
  "join sep [] = []"
| "join sep [x] = x"
| "join sep (x # y # ys) = x @ sep @ join sep (y # ys)"

text \<open>\<^verbatim>\<open>s.partition(d)\<close> without the separator: the text before the first \<open>d\<close> and the text
  after it (empty when \<open>d\<close> does not occur). It is also \<^verbatim>\<open>s.split(d, 1)\<close> when \<open>d\<close> occurs.\<close>

definition partition_at :: "char \<Rightarrow> string \<Rightarrow> string \<times> string" where
  "partition_at d s = (takeWhile (\<lambda>c. c \<noteq> d) s, drop 1 (dropWhile (\<lambda>c. c \<noteq> d) s))"

section \<open>Errors\<close>

text \<open>The exceptions the modelled code can raise. \<open>StoreError\<close> is any exception raised by
  a call to the store.\<close>

datatype error = ValueError | TypeError | AssertionError | StoreError

section \<open>The ipaddress check of a bracketed host\<close>

definition is_digit :: "char \<Rightarrow> bool" where
  "is_digit c = (c \<in> set ''0123456789'')"

definition is_hexdig :: "char \<Rightarrow> bool" where
  "is_hexdig c = (c \<in> set ''0123456789ABCDEFabcdef'')"

definition digit_val :: "char \<Rightarrow> nat" where
  "digit_val c = (of_char c :: nat) - 48"

text \<open>\<^verbatim>\<open>IPv4Address._parse_octet\<close> does not raise.\<close>

definition octet_ok :: "string \<Rightarrow> bool" where
  "octet_ok s = (s \<noteq> [] \<and> list_all is_digit s \<and> length s \<le> 3 \<and>
     (s = ''0'' \<or> hd s \<noteq> CHR ''0'') \<and> foldl (\<lambda>a c. a * 10 + digit_val c) 0 s \<le> 255)"

text \<open>\<^verbatim>\<open>IPv4Address(s)\<close> does not raise.\<close>

definition ipv4_ok :: "string \<Rightarrow> bool" where
  "ipv4_ok s = (CHR ''/'' \<notin> set s \<and> s \<noteq> [] \<and> length (split_on CHR ''.'' s) = 4 \<and>
     list_all octet_ok (split_on CHR ''.'' s))"

text \<open>\<^verbatim>\<open>IPv6Address._parse_hextet\<close> does not raise.\<close>

definition hextet_ok :: "string \<Rightarrow> bool" where
  "hextet_ok s = (list_all is_hexdig s \<and> length s \<le> 4 \<and> s \<noteq> [])"

text \<open>\<^verbatim>\<open>IPv6Address._ip_int_from_string\<close> does not raise. An IPv4 suffix is replaced by
  two hextets, as the source does.\<close>

definition ipv6_parts_ok :: "string list \<Rightarrow> bool" where
  "ipv6_parts_ok parts =
     (let n = length parts;
          skips = filter (\<lambda>i. parts ! i = []) [1..<n - 1]
      in n \<le> 9 \<and>
         (case skips of
            [] \<Rightarrow> n = 8 \<and> hd parts \<noteq> [] \<and> last parts \<noteq> [] \<and> list_all hextet_ok parts
          | [k] \<Rightarrow>
              (let hi = (if hd parts = [] then k - 1 else k);
                   lo = (if last parts = [] then n - k - 2 else n - k - 1)
               in (if hd parts = [] then hi = 0 else True) \<and>
                  (if last parts = [] then lo = 0 else True) \<and>
                  hi + lo \<le> 7 \<and>
                  list_all hextet_ok (take hi parts) \<and> list_all hextet_ok (drop (n - lo) parts))
          | _ \<Rightarrow> False))"

definition ipv6_addr_ok :: "string \<Rightarrow> bool" where
  "ipv6_addr_ok s =
     (let parts = split_on CHR '':'' s in
        s \<noteq> [] \<and> 3 \<le> length parts \<and>
        (if CHR ''.'' \<in> set (last parts)
         then ipv4_ok (last parts) \<and> ipv6_parts_ok (butlast parts @ [''0'', ''0''])
         else ipv6_parts_ok parts))"

text \<open>\<^verbatim>\<open>IPv6Address(s)\<close> does not raise: no slash, an optional non-empty scope id after one
  \<open>%\<close>.\<close>

definition ipv6_ok :: "string \<Rightarrow> bool" where
  "ipv6_ok s =
     (CHR ''/'' \<notin> set s \<and>
      (if CHR ''%'' \<in> set s
       then snd (partition_at CHR ''%'' s) \<noteq> [] \<and> CHR ''%'' \<notin> set (snd (partition_at CHR ''%'' s))
       else True) \<and>
      ipv6_addr_ok (fst (partition_at CHR ''%'' s)))"

text \<open>\<^verbatim>\<open>urllib.parse._check_bracketed_host\<close> does not raise: an IPvFuture literal
  \<^verbatim>\<open>v<hex>+.<text>+\<close>, or an address that \<^verbatim>\<open>ipaddress\<close> reads as IPv6 and not as IPv4.\<close>

definition check_bracketed_host :: "string \<Rightarrow> bool" where
  "check_bracketed_host h =
     (if startswith h ''v''
      then (let hs = takeWhile is_hexdig (tl h); r = dropWhile is_hexdig (tl h)
            in hs \<noteq> [] \<and> startswith r ''.'' \<and> tl r \<noteq> [])
      else \<not> ipv4_ok h \<and> ipv6_ok h)"

section \<open>urllib.parse\<close>

text \<open>The 5-tuple of \<^verbatim>\<open>urlsplit\<close> and the 6-tuple of \<^verbatim>\<open>urlparse\<close>.\<close>

record split_result =
  sp_scheme :: string
  sp_netloc :: string
  sp_path :: string
  sp_query :: string
  sp_fragment :: string

record parse_result =
  scheme :: string
  netloc :: string
  path :: string
  params :: string
  query :: string
  fragment :: string

definition c0_or_space :: "char \<Rightarrow> bool" where
  "c0_or_space c = ((of_char c :: nat) \<le> 32)"

definition unsafe_url_byte :: "char \<Rightarrow> bool" where
  "unsafe_url_byte c = (c \<in> set [CHR 0x09, CHR 0x0D, CHR 0x0A])"

definition ascii_alpha :: "char \<Rightarrow> bool" where
  "ascii_alpha c = (let n = (of_char c :: nat) in (65 \<le> n \<and> n \<le> 90) \<or> (97 \<le> n \<and> n \<le> 122))"

definition scheme_char :: "char \<Rightarrow> bool" where
  "scheme_char c = (ascii_alpha c \<or> is_digit c \<or> c \<in> set ''+-.'')"

text \<open>The scheme of \<^verbatim>\<open>urlsplit\<close>: the text before the first colon, when the URL starts
  with an ASCII letter and that text has scheme characters only.\<close>

definition split_scheme :: "string \<Rightarrow> string \<times> string" where
  "split_scheme url =
     (let pre = takeWhile (\<lambda>c. c \<noteq> CHR '':'') url in
        if CHR '':'' \<in> set url \<and> pre \<noteq> [] \<and> ascii_alpha (hd url) \<and> list_all scheme_char pre
        then (lower pre, drop (Suc (length pre)) url)
        else ([], url))"

definition netloc_delim :: "char \<Rightarrow> bool" where
  "netloc_delim c = (c \<in> set ''/?#'')"

text \<open>\<^verbatim>\<open>_splitnetloc(url, 2)\<close>, given the text after the two slashes.\<close>

definition splitnetloc :: "string \<Rightarrow> string \<times> string" where
  "splitnetloc r = (takeWhile (\<lambda>c. \<not> netloc_delim c) r, dropWhile (\<lambda>c. \<not> netloc_delim c) r)"

text \<open>\<^verbatim>\<open>netloc.partition('[')[2].partition(']')[0]\<close>\<close>

definition bracketed_host :: "string \<Rightarrow> string" where
  "bracketed_host n = fst (partition_at CHR '']'' (snd (partition_at CHR ''['' n)))"

text \<open>
  \<^verbatim>\<open>urlsplit(url)\<close> with the default scheme and fragments allowed. \<^verbatim>\<open>_checknetloc\<close> is
  left out: it raises only when NFKC normalisation of the host yields one of \<^verbatim>\<open>/?#@:\<close>,
  which no character of Latin-1 does.
\<close>

definition urlsplit :: "string \<Rightarrow> error + split_result" where
  "urlsplit url0 =
     (let url = filter (\<lambda>c. \<not> unsafe_url_byte c) (dropWhile c0_or_space url0);
          sch = fst (split_scheme url);
          rest = snd (split_scheme url);
          has_netloc = (take 2 rest = ''//'');
          nl = (if has_netloc then fst (splitnetloc (drop 2 rest)) else []);
          rest1 = (if has_netloc then snd (splitnetloc (drop 2 rest)) else rest)
      in if has_netloc \<and> ((CHR ''['' \<in> set nl) \<noteq> (CHR '']'' \<in> set nl)) then Inl ValueError
         else if has_netloc \<and> CHR ''['' \<in> set nl \<and> CHR '']'' \<in> set nl \<and>
                 \<not> check_bracketed_host (bracketed_host nl) then Inl ValueError
         else Inr \<lparr>sp_scheme = sch, sp_netloc = nl,
                    sp_path = fst (partition_at CHR ''?'' (fst (partition_at CHR ''#'' rest1))),
                    sp_query = snd (partition_at CHR ''?'' (fst (partition_at CHR ''#'' rest1))),
                    sp_fragment = snd (partition_at CHR ''#'' rest1)\<rparr>)"

definition uses_params :: "string list" where
  "uses_params = [[], ''ftp'', ''hdl'', ''prospero'', ''http'', ''imap'', ''https'', ''shttp'',
     ''rtsp'', ''rtsps'', ''rtspu'', ''sip'', ''sips'', ''mms'', ''sftp'', ''tel'']"

definition uses_netloc :: "string list" where
  "uses_netloc = [[], ''ftp'', ''http'', ''gopher'', ''nntp'', ''telnet'', ''imap'', ''wais'',
     ''file'', ''mms'', ''https'', ''shttp'', ''snews'', ''prospero'', ''rtsp'', ''rtsps'',
     ''rtspu'', ''rsync'', ''svn'', ''svn+ssh'', ''sftp'', ''nfs'', ''git'', ''git+ssh'', ''ws'',
     ''wss'']"

text \<open>\<^verbatim>\<open>_splitparams\<close>: the parameters are what follows the first semicolon of the last
  path segment.\<close>

definition splitparams :: "string \<Rightarrow> string \<times> string" where
  "splitparams url =
     (let seg = rev (takeWhile (\<lambda>c. c \<noteq> CHR ''/'') (rev url));
          pre = take (length url - length seg) url
      in if CHR '';'' \<in> set seg
         then (pre @ fst (partition_at CHR '';'' seg), snd (partition_at CHR '';'' seg))
         else (url, []))"

definition urlparse :: "string \<Rightarrow> error + parse_result" where
  "urlparse url =
     (case urlsplit url of
        Inl e \<Rightarrow> Inl e
      | Inr sp \<Rightarrow>
          (let split = (sp_scheme sp \<in> set uses_params \<and> CHR '';'' \<in> set (sp_path sp))
           in Inr \<lparr>scheme = sp_scheme sp, netloc = sp_netloc sp,
                    path = (if split then fst (splitparams (sp_path sp)) else sp_path sp),
                    params = (if split then snd (splitparams (sp_path sp)) else []),
                    query = sp_query sp, fragment = sp_fragment sp\<rparr>))"

text \<open>\<^verbatim>\<open>urlunsplit\<close> and \<^verbatim>\<open>urlunparse\<close>\<close>

definition urlunsplit :: "string \<Rightarrow> string \<Rightarrow> string \<Rightarrow> string \<Rightarrow> string \<Rightarrow> string" where
  "urlunsplit sch nl url q frag =
     (let url1 = (if nl \<noteq> [] \<or> (sch \<noteq> [] \<and> sch \<in> set uses_netloc) \<or> take 2 url = ''//''
                  then ''//'' @ nl @ (if url \<noteq> [] \<and> take 1 url \<noteq> ''/'' then ''/'' @ url else url)
                  else url);
          url2 = (if sch \<noteq> [] then sch @ '':'' @ url1 else url1);
          url3 = (if q \<noteq> [] then url2 @ ''?'' @ q else url2)
      in if frag \<noteq> [] then url3 @ ''#'' @ frag else url3)"

definition urlunparse :: "string \<Rightarrow> string \<Rightarrow> string \<Rightarrow> string \<Rightarrow> string \<Rightarrow> string \<Rightarrow> string" where
  "urlunparse sch nl url ps q frag =
     urlunsplit sch nl (if ps \<noteq> [] then url @ '';'' @ ps else url) q frag"

subsection \<open>Percent-encoding\<close>

text \<open>
  A decoded text is a list of code points: an escape sequence can stand for any
  character of Unicode, whatever the characters of the URL are. \<open>codes\<close> are the code
  points of a string.
\<close>

type_synonym unicode = "nat list"

definition codes :: "string \<Rightarrow> unicode" where
  "codes s = map of_char s"

definition hex_val :: "char \<Rightarrow> nat" where
  "hex_val c = (let n = (of_char c :: nat) in
     if 48 \<le> n \<and> n \<le> 57 then n - 48 else if 65 \<le> n \<and> n \<le> 70 then n - 55 else n - 87)"

definition hex_upper :: "nat \<Rightarrow> char" where
  "hex_upper n = ''0123456789ABCDEF'' ! n"

text \<open>
  \<^verbatim>\<open>unquote_to_bytes\<close> on a run of ASCII characters: \<^verbatim>\<open>%XX\<close> with two hexadecimal digits
  becomes the byte of that value; any other percent sign stays.
\<close>

fun unquote_to_bytes :: "string \<Rightarrow> nat list" where
  "unquote_to_bytes [] = []"
| "unquote_to_bytes [c] = [of_char c]"
| "unquote_to_bytes [c, d] = [of_char c, of_char d]"
| "unquote_to_bytes (c # h1 # h2 # r) =
     (if c = CHR ''%'' \<and> is_hexdig h1 \<and> is_hexdig h2
      then (hex_val h1 * 16 + hex_val h2) # unquote_to_bytes r
      else of_char c # unquote_to_bytes (h1 # h2 # r))"

text \<open>
  \<^verbatim>\<open>bytes.decode('utf-8', 'replace')\<close>, as CPython 3.11 does it. A byte that cannot start
  a sequence, and a start byte with the longest run of bytes after it that can still
  follow it, become U+FFFD (65533) when the sequence is not complete; decoding goes
  on at the byte that did not fit. The second byte is checked against the start
  byte, so that no overlong form, no surrogate and nothing above U+10FFFF is decoded.
\<close>

definition cont_byte :: "nat \<Rightarrow> bool" where
  "cont_byte b = (128 \<le> b \<and> b < 192)"

definition second_byte :: "nat \<Rightarrow> nat \<Rightarrow> bool" where
  "second_byte b b2 =
     (if b = 224 then 160 \<le> b2 \<and> b2 < 192
      else if b = 237 then 128 \<le> b2 \<and> b2 < 160
      else if b = 240 then 144 \<le> b2 \<and> b2 < 192
      else if b = 244 then 128 \<le> b2 \<and> b2 < 144
      else cont_byte b2)"

fun utf8_decode :: "nat list \<Rightarrow> unicode" where
  "utf8_decode [] = []"
| "utf8_decode (b # r) =
     (if b < 128 then b # utf8_decode r
      else if b < 194 then 65533 # utf8_decode r
      else if 245 \<le> b then 65533 # utf8_decode r
      else
        (case r of
           [] \<Rightarrow> [65533]
         | b2 # r2 \<Rightarrow>
             if second_byte b b2 then
               (if b < 224 then ((b - 192) * 64 + (b2 - 128)) # utf8_decode r2
                else
                  (case r2 of
                     [] \<Rightarrow> [65533]
                   | b3 # r3 \<Rightarrow>
                       if cont_byte b3 then
                         (if b < 240
                          then ((b - 224) * 4096 + (b2 - 128) * 64 + (b3 - 128)) # utf8_decode r3
                          else
                            (case r3 of
                               [] \<Rightarrow> [65533]
                             | b4 # r4 \<Rightarrow>
                                 if cont_byte b4
                                 then ((b - 240) * 262144 + (b2 - 128) * 4096 + (b3 - 128) * 64
                                         + (b4 - 128)) # utf8_decode r4
                                 else 65533 # utf8_decode r3))
                       else 65533 # utf8_decode r2))
             else 65533 # utf8_decode r))"

text \<open>
  \<^verbatim>\<open>unquote(string)\<close>: a string with no percent sign is returned as it is. Otherwise
  every run of ASCII characters is unquoted to bytes and decoded, and the characters
  between the runs are kept. \<open>run\<close> is the run of ASCII characters read so far, last
  character first.
\<close>

fun unquote_runs :: "string \<Rightarrow> string \<Rightarrow> unicode" where
  "unquote_runs run [] = utf8_decode (unquote_to_bytes (rev run))"
| "unquote_runs run (c # cs) =
     (if (of_char c :: nat) < 128 then unquote_runs (c # run) cs
      else utf8_decode (unquote_to_bytes (rev run)) @ of_char c # unquote_runs [] cs)"

definition unquote :: "string \<Rightarrow> unicode" where
  "unquote s = (if CHR ''%'' \<in> set s then unquote_runs [] s else codes s)"

definition unquote_plus :: "string \<Rightarrow> unicode" where
  "unquote_plus s = unquote (map (\<lambda>c. if c = CHR ''+'' then CHR '' '' else c) s)"

definition always_safe :: "char \<Rightarrow> bool" where
  "always_safe c = (ascii_alpha c \<or> is_digit c \<or> c \<in> set ''_.-~'')"

text \<open>
  The UTF-8 bytes of a code point. Python raises \<^verbatim>\<open>UnicodeEncodeError\<close> on a surrogate
  (U+D800 to U+DFFF); no text that \<open>unquote\<close> returns holds one, as \<open>utf8_decode\<close>
  decodes none and a string has code points up to 255 only.
\<close>

definition utf8_encode :: "nat \<Rightarrow> nat list" where
  "utf8_encode n =
     (if n < 128 then [n]
      else if n < 2048 then [192 + n div 64, 128 + n mod 64]
      else if n < 65536 then [224 + n div 4096, 128 + n div 64 mod 64, 128 + n mod 64]
      else [240 + n div 262144, 128 + n div 4096 mod 64, 128 + n div 64 mod 64, 128 + n mod 64])"

definition pct_byte :: "nat \<Rightarrow> string" where
  "pct_byte b = [CHR ''%'', hex_upper (b div 16), hex_upper (b mod 16)]"

text \<open>\<^verbatim>\<open>quote_plus(s)\<close> with no extra safe characters.\<close>

definition quote_plus_char :: "nat \<Rightarrow> string" where
  "quote_plus_char n =
     (if n < 128 \<and> always_safe (char_of n) then [char_of n] else if n = 32 then ''+''
      else concat (map pct_byte (utf8_encode n)))"

definition quote_plus :: "unicode \<Rightarrow> string" where
  "quote_plus s = concat (map quote_plus_char s)"

text \<open>\<^verbatim>\<open>urlencode\<close> of a list of pairs of texts.\<close>

definition urlencode :: "(unicode \<times> unicode) list \<Rightarrow> string" where
  "urlencode kvs = join ''&'' (map (\<lambda>kv. quote_plus (fst kv) @ ''='' @ quote_plus (snd kv)) kvs)"

text \<open>\<^verbatim>\<open>parse_qsl(qs)\<close> with blank values dropped and no strict parsing.\<close>

definition parse_qsl :: "string \<Rightarrow> (unicode \<times> unicode) list" where
  "parse_qsl qs =
     (if qs = [] then []
      else map (\<lambda>nv. (unquote_plus (fst (partition_at CHR ''='' nv)),
                       unquote_plus (snd (partition_at CHR ''='' nv))))
             (filter (\<lambda>nv. nv \<noteq> [] \<and> snd (partition_at CHR ''='' nv) \<noteq> [])
                (split_on CHR ''&'' qs)))"

text \<open>A Python dict with texts as keys, in insertion order.\<close>

type_synonym 'v dict = "(unicode \<times> 'v) list"

text \<open>\<^verbatim>\<open>parse_qs\<close>: the values of each name, in order, under the name's first position.\<close>

fun dict_append :: "unicode list dict \<Rightarrow> unicode \<Rightarrow> unicode \<Rightarrow> unicode list dict" where
  "dict_append [] k v = [(k, [v])]"
| "dict_append ((k', vs) # d) k v =
     (if k' = k then (k', vs @ [v]) # d else (k', vs) # dict_append d k v)"

definition parse_qs :: "string \<Rightarrow> unicode list dict" where
  "parse_qs qs = foldl (\<lambda>d nv. dict_append d (fst nv) (snd nv)) [] (parse_qsl qs)"

section \<open>normalize_url\<close>

definition tracking_params :: "string list" where
  "tracking_params = [''ref'', ''ref_src'', ''fbclid'', ''gclid'', ''igshid'', ''mc_cid'',
     ''mc_eid'', ''spm'', ''source'', ''mkt_tok'']"

text \<open>
  \<^verbatim>\<open>key.lower()\<close> on a decoded text. Of the code points from 128 on, two have a lower-case
  form with an ASCII character in it: U+0130, which becomes i and U+0307, and the
  Kelvin sign U+212A, which becomes k. The letters of ASCII and of Latin-1 move up by
  32. The lower-case forms of the other code points are not in the model: they hold
  no ASCII character, so that a key with such a code point is not a tracking
  parameter whichever form it takes.
\<close>

definition lower_code :: "nat \<Rightarrow> unicode" where
  "lower_code n =
     (if (65 \<le> n \<and> n \<le> 90) \<or> (192 \<le> n \<and> n \<le> 222 \<and> n \<noteq> 215) then [n + 32]
      else if n = 304 then [105, 775]
      else if n = 8490 then [107]
      else [n])"

definition lower_text :: "unicode \<Rightarrow> unicode" where
  "lower_text s = concat (map lower_code s)"

text \<open>The loop over \<^verbatim>\<open>query_dict.items()\<close>: a key is kept unless it starts with
  \<^verbatim>\<open>utm_\<close> or is, in lower case, a tracking parameter; its first value is kept.\<close>

definition filter_query :: "unicode list dict \<Rightarrow> unicode dict" where
  "filter_query d =
     map (\<lambda>kv. (fst kv, (if snd kv \<noteq> [] then hd (snd kv) else [])))
       (filter (\<lambda>kv. \<not> startswith (fst kv) (codes ''utm_'') \<and>
                       lower_text (fst kv) \<notin> set (map (\<lambda>p. lower_text (codes p)) tracking_params)) d)"

text \<open>The three steps of the \<^verbatim>\<open>try\<close> block: the host without one leading \<^verbatim>\<open>www.\<close>, the
  path without one final slash (the root path is kept), and the query rebuilt from the
  parameters that are kept, sorted.\<close>

definition strip_www :: "string \<Rightarrow> string" where
  "strip_www nl = (if startswith nl ''www.'' then drop 4 nl else nl)"

definition strip_slash :: "string \<Rightarrow> string" where
  "strip_slash p = (if p \<noteq> ''/'' \<and> endswith p ''/'' then butlast p else p)"

definition clean_query :: "string \<Rightarrow> string" where
  "clean_query q =
     (if filter_query (parse_qs q) \<noteq> [] then urlencode (sort (filter_query (parse_qs q))) else [])"

text \<open>The body of the \<^verbatim>\<open>try\<close> block, from the parsed URL to the rebuilt one.\<close>

definition rebuild_url :: "parse_result \<Rightarrow> string" where
  "rebuild_url parsed =
     urlunparse ''https'' (strip_www (lower (netloc parsed))) (strip_slash (path parsed))
       (params parsed) (clean_query (query parsed)) []"

text \<open>The URL with the scheme put in front when it has none.\<close>

definition with_scheme :: "string \<Rightarrow> string" where
  "with_scheme u = (if startswith u ''http://'' \<or> startswith u ''https://'' then u
     else ''https://'' @ u)"

definition normalize_url :: "string \<Rightarrow> string" where
  "normalize_url u =
     (if u = [] then []
      else if strip u = [] then []
      else (case urlparse (with_scheme (strip u)) of
              Inl e \<Rightarrow> strip (with_scheme (strip u))
            | Inr parsed \<Rightarrow> rebuild_url parsed))"

section \<open>The identity resolver\<close>

text \<open>
  A raw record, as the search returns it. A text field that is absent is the empty
  string (\<^verbatim>\<open>item.get(field, "")\<close>). A field that may carry further links is absent, a
  list of strings or one string; the score is absent, null or a number.
\<close>

datatype url_field = NoField | UrlList "string list" | UrlText string

record item =
  i_link :: string
  i_title :: string
  i_snippet :: string
  i_source :: string
  i_company :: string
  i_product :: string
  i_name :: string
  i_canonical_name :: string
  i_one_liner :: string
  i_summary :: string
  i_excerpt :: string
  i_sources :: url_field
  i_links :: url_field
  i_evidence_urls :: url_field
  i_related_urls :: url_field
  i_score :: "int option option"

definition get_hostname :: "string \<Rightarrow> string" where
  "get_hostname u = (case urlparse u of Inl e \<Rightarrow> [] | Inr parsed \<Rightarrow> netloc parsed)"

text \<open>\<^verbatim>\<open>s.rstrip()\<close>, and the text after the last occurrence of a character.\<close>

definition rstrip :: "string \<Rightarrow> string" where
  "rstrip s = rev (dropWhile py_isspace (rev s))"

definition after_last :: "char \<Rightarrow> string \<Rightarrow> string" where
  "after_last d s = rev (takeWhile (\<lambda>c. c \<noteq> d) (rev s))"

text \<open>
  The three substitutions of \<^verbatim>\<open>clean_canonical_name\<close>. Each pattern is white space, a
  separator, white space and a non-empty tail up to the end of the string that is
  free of one character; \<^verbatim>\<open>re.sub\<close> removes the leftmost match, which runs to the end.
  \<^item> \<^verbatim>\<open>\s*[-...]\s*[^|]+$\<close>: the first dash after the last bar, when text follows it
    (the two other dashes of the class are not in Latin-1);
  \<^item> \<^verbatim>\<open>\s*\|\s*[^|]+$\<close>: the last bar, when text follows it;
  \<^item> \<^verbatim>\<open>\s*::\s*[^:]+$\<close>: the last colon, when it follows a colon and text follows it.
\<close>

definition sub_dash :: "string \<Rightarrow> string" where
  "sub_dash s =
     (let t = after_last CHR ''|'' s; pre = takeWhile (\<lambda>c. c \<noteq> CHR ''-'') t
      in if CHR ''-'' \<in> set t \<and> Suc (length pre) < length t
         then rstrip (take (length s - length t + length pre) s)
         else s)"

definition sub_bar :: "string \<Rightarrow> string" where
  "sub_bar s =
     (let t = after_last CHR ''|'' s
      in if CHR ''|'' \<in> set s \<and> t \<noteq> []
         then rstrip (take (length s - length t - 1) s)
         else s)"

definition sub_colons :: "string \<Rightarrow> string" where
  "sub_colons s =
     (let t = after_last CHR '':'' s; pre = take (length s - length t) s
      in if t \<noteq> [] \<and> endswith pre ''::''
         then rstrip (take (length pre - 2) pre)
         else s)"

definition clean_canonical_name :: "string \<Rightarrow> string" where
  "clean_canonical_name t =
     (if t = [] then []
      else if strip (sub_colons (sub_bar (sub_dash t))) \<noteq> []
      then strip (sub_colons (sub_bar (sub_dash t))) else t)"

definition generate_canonical_name :: "item \<Rightarrow> string \<Rightarrow> string \<Rightarrow> string" where
  "generate_canonical_name it t host =
     (case filter (\<lambda>v. v \<noteq> [])
             (map strip [i_company it, i_product it, i_name it, i_canonical_name it]) of
        v # vs \<Rightarrow> v
      | [] \<Rightarrow>
          if t \<noteq> [] \<and> clean_canonical_name t \<noteq> [] then clean_canonical_name t
          else if host \<noteq> [] then host
          else if t \<noteq> [] then t else ''(untitled)'')"

text \<open>\<^verbatim>\<open>s.split()\<close>: the maximal runs of characters that are not white space.\<close>

fun split_ws_aux :: "string \<Rightarrow> string \<Rightarrow> string list" where
  "split_ws_aux w [] = (if w = [] then [] else [w])"
| "split_ws_aux w (c # cs) =
     (if py_isspace c then (if w = [] then split_ws_aux [] cs else w # split_ws_aux [] cs)
      else split_ws_aux (w @ [c]) cs)"

definition split_ws :: "string \<Rightarrow> string list" where
  "split_ws s = split_ws_aux [] s"

text \<open>\<^verbatim>\<open>s.rfind(c)\<close>, with \<open>None\<close> for \<^verbatim>\<open>-1\<close>.\<close>

definition rfind :: "char \<Rightarrow> string \<Rightarrow> nat option" where
  "rfind c s = (if c \<in> set s then Some (length s - 1 - length (takeWhile (\<lambda>x. x \<noteq> c) (rev s)))
     else None)"

text \<open>The cut at the last sentence mark beyond position 80: the marks are tried in the
  order of the source; the full-width ones are not in Latin-1.\<close>

definition punct_cut :: "string \<Rightarrow> string option" where
  "punct_cut truncated =
     (case filter (\<lambda>p. case rfind p truncated of None \<Rightarrow> False | Some k \<Rightarrow> 80 < k) ''.!?;'' of
        [] \<Rightarrow> None
      | p # ps \<Rightarrow> Some (take (the (rfind p truncated) + 1) truncated))"

text \<open>The placeholder of \<^verbatim>\<open>generate_one_liner\<close> is three Chinese characters; it stands here
  as its UTF-8 bytes.\<close>

definition no_description :: string where
  "no_description = [CHR 0xE6, CHR 0x97, CHR 0xA0, CHR 0xE6, CHR 0x8F, CHR 0x8F, CHR 0xE8,
     CHR 0xBF, CHR 0xB0]"

definition generate_one_liner :: "item \<Rightarrow> string \<Rightarrow> string \<Rightarrow> string" where
  "generate_one_liner it description t =
     (case filter (\<lambda>v. v \<noteq> []) (map strip [i_one_liner it, i_summary it, i_excerpt it]) of
        v # vs \<Rightarrow> (if 120 < length v then take 117 v @ ''...'' else v)
      | [] \<Rightarrow>
          if description \<noteq> [] then
            (let cleaned = join '' '' (split_ws description) in
               if 120 < length cleaned then
                 (case punct_cut (take 120 cleaned) of
                    Some r \<Rightarrow> r
                  | None \<Rightarrow> take 117 (take 120 cleaned) @ ''...'')
               else cleaned)
          else if t \<noteq> [] then
            (let cleaned = join '' '' (split_ws t) in
               if 120 < length cleaned then take 117 cleaned @ ''...'' else cleaned)
          else no_description)"

text \<open>One step of the evidence list: a normalised URL is appended when it is not empty
  and not yet there.\<close>

definition add_url :: "string list \<Rightarrow> string \<Rightarrow> string list" where
  "add_url urls_list u =
     (if normalize_url u \<noteq> [] \<and> normalize_url u \<notin> set urls_list
      then urls_list @ [normalize_url u] else urls_list)"

text \<open>\<^verbatim>\<open>re.split(r'[,;]', value)\<close>\<close>

fun split_commas :: "string \<Rightarrow> string list" where
  "split_commas [] = [[]]"
| "split_commas (c # cs) =
     (if c = CHR '','' \<or> c = CHR '';'' then [] # split_commas cs
      else (case split_commas cs of [] \<Rightarrow> [[c]] | p # ps \<Rightarrow> (c # p) # ps))"

definition field_urls :: "url_field \<Rightarrow> string list" where
  "field_urls f =
     (case f of
        NoField \<Rightarrow> []
      | UrlList us \<Rightarrow> filter (\<lambda>u. u \<noteq> []) us
      | UrlText v \<Rightarrow> filter (\<lambda>u. u \<noteq> []) (map strip (split_commas v)))"

text \<open>The links of the four further fields, in the order of the loop.\<close>

definition extra_urls :: "item \<Rightarrow> string list" where
  "extra_urls it = field_urls (i_sources it) @ field_urls (i_links it) @
     field_urls (i_evidence_urls it) @ field_urls (i_related_urls it)"

text \<open>The assertion at the end raises when the list is empty.\<close>

definition generate_evidence_urls :: "item \<Rightarrow> string \<Rightarrow> error + string list" where
  "generate_evidence_urls it u =
     (let urls_list = foldl add_url (if u \<noteq> [] then add_url [] u else []) (extra_urls it)
      in if 0 < length urls_list then Inr urls_list else Inl AssertionError)"

text \<open>
  \<^verbatim>\<open>compute_dedupe_key\<close>. The hash is a parameter: \<open>sha1 s\<close> stands for
  \<^verbatim>\<open>hashlib.sha1(s.encode()).hexdigest()\<close>.
\<close>

definition compute_dedupe_key ::
  "(string \<Rightarrow> string) \<Rightarrow> string \<Rightarrow> string \<Rightarrow> string \<Rightarrow> string \<Rightarrow> string" where
  "compute_dedupe_key sha1 u host cname t =
     (if normalize_url u \<noteq> [] then ''url:'' @ sha1 (normalize_url u)
      else ''ht:'' @ sha1 (strip (lower (host @ ''|'' @ (if cname \<noteq> [] then cname else t)))))"

section \<open>Dates and times\<close>

text \<open>
  A Python \<^verbatim>\<open>datetime\<close>: the reading of the wall clock in microseconds since the epoch,
  and the offset of its time zone from UTC (\<open>None\<close> for a naive value).
\<close>

record datetime =
  wall :: int
  tzinfo :: "int option"

text \<open>
  The ISO text of a time stamp, as the store returns it and the code writes it. A
  text stands for what \<^verbatim>\<open>datetime.fromisoformat\<close> makes of it once a final Z is
  replaced by an offset: a value with an offset, a naive value, or a \<^verbatim>\<open>ValueError\<close>.
  \<open>BadText t\<close> is a text of the instant \<open>t\<close> that Python cannot parse. A time stamp is
  never the empty text.
\<close>

datatype iso_text = AwareText int int | NaiveText int | BadText int

definition fromisoformat :: "iso_text \<Rightarrow> error + datetime" where
  "fromisoformat txt =
     (case txt of
        AwareText w off \<Rightarrow> Inr \<lparr>wall = w, tzinfo = Some off\<rparr>
      | NaiveText w \<Rightarrow> Inr \<lparr>wall = w, tzinfo = None\<rparr>
      | BadText t \<Rightarrow> Inl ValueError)"

definition isoformat :: "datetime \<Rightarrow> iso_text" where
  "isoformat dt = (case tzinfo dt of None \<Rightarrow> NaiveText (wall dt) | Some off \<Rightarrow> AwareText (wall dt) off)"

text \<open>The instant a text denotes for the store, which reads a text with no offset as UTC.\<close>

definition instant_of :: "iso_text \<Rightarrow> int" where
  "instant_of txt = (case txt of AwareText w off \<Rightarrow> w - off | NaiveText w \<Rightarrow> w | BadText t \<Rightarrow> t)"

text \<open>\<^verbatim>\<open>datetime.now(timezone.utc)\<close> at the instant \<open>now\<close>.\<close>

definition now_utc :: "int \<Rightarrow> datetime" where
  "now_utc now = \<lparr>wall = now, tzinfo = Some 0\<rparr>"

text \<open>\<^verbatim>\<open>dt.astimezone(tz=None)\<close> of a value with an offset, where \<open>loc\<close> is the offset of the
  machine's time zone; and \<^verbatim>\<open>dt.replace(tzinfo=None)\<close>.\<close>

definition astimezone_local :: "int \<Rightarrow> datetime \<Rightarrow> datetime" where
  "astimezone_local loc dt =
     (case tzinfo dt of
        None \<Rightarrow> \<lparr>wall = wall dt, tzinfo = Some loc\<rparr>
      | Some off \<Rightarrow> \<lparr>wall = wall dt - off + loc, tzinfo = Some loc\<rparr>)"

definition replace_tzinfo_none :: "datetime \<Rightarrow> datetime" where
  "replace_tzinfo_none dt = dt\<lparr>tzinfo := None\<rparr>"

text \<open>\<^verbatim>\<open>a - b\<close> on two datetimes, in microseconds: Python raises \<^verbatim>\<open>TypeError\<close> when one has
  an offset and the other has none.\<close>

definition datetime_sub :: "datetime \<Rightarrow> datetime \<Rightarrow> error + int" where
  "datetime_sub a b =
     (case (tzinfo a, tzinfo b) of
        (None, None) \<Rightarrow> Inr (wall a - wall b)
      | (Some oa, Some ob) \<Rightarrow> Inr ((wall a - oa) - (wall b - ob))
      | _ \<Rightarrow> Inl TypeError)"

definition days :: "int \<Rightarrow> int" where
  "days n = n * 86400000000"

definition minutes :: "int \<Rightarrow> int" where
  "minutes n = n * 60000000"

section \<open>The store\<close>

text \<open>
  A row of the table \<^verbatim>\<open>deals\<close>. \<open>d_evidence_urls\<close> is \<open>None\<close> when the column is null or
  holds something that is not a list; the other optional columns are \<open>None\<close> when null.
\<close>

record deal =
  d_id :: nat
  d_dedupe_key :: string
  d_title :: string
  d_url :: string
  d_description :: string
  d_canonical_name :: string
  d_one_liner :: string
  d_evidence_urls :: "string list option"
  d_topic :: string
  d_hostname :: string
  d_status :: string
  d_seen_count :: "int option"
  d_first_seen_at :: "iso_text option"
  d_last_seen_at :: "iso_text option"
  d_dismissed_reason :: "string option"
  d_dismissed_at :: "iso_text option"
  d_score :: "int option"
  d_created_at :: "iso_text option"
  d_updated_at :: "iso_text option"

text \<open>
  The client with the table behind it. \<open>faults\<close> scripts the calls to the store still to
  come, in order: \<open>True\<close> means that the call raises. A call beyond the script succeeds.
\<close>

record client =
  rows :: "deal list"
  faults :: "bool list"
  next_id :: nat

definition store_call :: "client \<Rightarrow> bool \<times> client" where
  "store_call c = (case faults c of [] \<Rightarrow> (False, c) | f # fs \<Rightarrow> (f, c\<lparr>faults := fs\<rparr>))"

text \<open>The dict that \<^verbatim>\<open>upsert_deals\<close> sends. \<open>p_created\<close> holds \<^verbatim>\<open>created_at\<close> and
  \<^verbatim>\<open>first_seen_at\<close>, \<open>p_status\<close> holds \<^verbatim>\<open>status\<close>, \<^verbatim>\<open>dismissed_reason\<close> and \<^verbatim>\<open>dismissed_at\<close>, and
  \<open>p_score\<close> the score: each is \<open>None\<close> when the keys are not in the dict.\<close>

record payload =
  p_dedupe_key :: string
  p_title :: string
  p_url :: string
  p_description :: string
  p_canonical_name :: string
  p_one_liner :: string
  p_evidence_urls :: "string list"
  p_topic :: string
  p_hostname :: string
  p_last_seen_at :: iso_text
  p_seen_count :: int
  p_updated_at :: iso_text
  p_created :: "(iso_text \<times> iso_text) option"
  p_status :: "(string \<times> string option \<times> iso_text option) option"
  p_score :: "int option option"

text \<open>Modelled from the spec: the store is an external service, so its select and its
  insert-or-update keyed by the unique \<^verbatim>\<open>dedupe_key\<close> follow section 6 of the
  specification. An update writes the columns of the dict and no other; an insert
  gives the columns that the dict leaves out their defaults (\<^verbatim>\<open>status\<close> is \<^verbatim>\<open>new\<close>, as the
  source notes, the others null) and a fresh id.\<close>

definition update_row :: "payload \<Rightarrow> deal \<Rightarrow> deal" where
  "update_row p d =
     d\<lparr>d_title := p_title p, d_url := p_url p, d_description := p_description p,
       d_canonical_name := p_canonical_name p, d_one_liner := p_one_liner p,
       d_evidence_urls := Some (p_evidence_urls p), d_topic := p_topic p,
       d_hostname := p_hostname p, d_last_seen_at := Some (p_last_seen_at p),
       d_seen_count := Some (p_seen_count p), d_updated_at := Some (p_updated_at p),
       d_created_at := (case p_created p of None \<Rightarrow> d_created_at d | Some cf \<Rightarrow> Some (fst cf)),
       d_first_seen_at := (case p_created p of None \<Rightarrow> d_first_seen_at d | Some cf \<Rightarrow> Some (snd cf)),
       d_status := (case p_status p of None \<Rightarrow> d_status d | Some s \<Rightarrow> fst s),
       d_dismissed_reason := (case p_status p of None \<Rightarrow> d_dismissed_reason d | Some s \<Rightarrow> fst (snd s)),
       d_dismissed_at := (case p_status p of None \<Rightarrow> d_dismissed_at d | Some s \<Rightarrow> snd (snd s)),
       d_score := (case p_score p of None \<Rightarrow> d_score d | Some v \<Rightarrow> v)\<rparr>"

definition default_row :: "nat \<Rightarrow> string \<Rightarrow> deal" where
  "default_row n k =
     \<lparr>d_id = n, d_dedupe_key = k, d_title = [], d_url = [], d_description = [],
      d_canonical_name = [], d_one_liner = [], d_evidence_urls = None, d_topic = [],
      d_hostname = [], d_status = ''new'', d_seen_count = None, d_first_seen_at = None,
      d_last_seen_at = None, d_dismissed_reason = None, d_dismissed_at = None, d_score = None,
      d_created_at = None, d_updated_at = None\<rparr>"

definition has_key :: "string \<Rightarrow> deal \<Rightarrow> bool" where
  "has_key k d = (d_dedupe_key d = k)"

text \<open>\<^verbatim>\<open>select(...).eq("dedupe_key", k).limit(1).execute()\<close>\<close>

definition select_deal :: "client \<Rightarrow> string \<Rightarrow> (error + deal option) \<times> client" where
  "select_deal c k =
     (if fst (store_call c) then (Inl StoreError, snd (store_call c))
      else (Inr (find (has_key k) (rows c)), snd (store_call c)))"

text \<open>\<^verbatim>\<open>upsert(data, on_conflict="dedupe_key").execute()\<close>\<close>

definition upsert_row :: "client \<Rightarrow> payload \<Rightarrow> (error + unit) \<times> client" where
  "upsert_row c p =
     (if fst (store_call c) then (Inl StoreError, snd (store_call c))
      else if list_ex (has_key (p_dedupe_key p)) (rows c)
      then (Inr (), (snd (store_call c))
              \<lparr>rows := map (\<lambda>d. if has_key (p_dedupe_key p) d then update_row p d else d) (rows c)\<rparr>)
      else (Inr (), (snd (store_call c))
              \<lparr>rows := rows c @ [update_row p (default_row (next_id c) (p_dedupe_key p))],
                next_id := Suc (next_id c)\<rparr>))"

section \<open>upsert_deals\<close>

record stats =
  processed :: nat
  reactivated :: nat
  errors :: nat

definition no_stats :: stats where
  "no_stats = \<lparr>processed = 0, reactivated = 0, errors = 0\<rparr>"

definition EVIDENCE_URLS_MAX :: nat where
  "EVIDENCE_URLS_MAX = 20"

text \<open>The merge of the evidence of an existing deal: the new URLs that are not yet seen
  are appended in order, and the last \<open>EVIDENCE_URLS_MAX\<close> entries are kept.\<close>

definition append_unseen :: "string list \<Rightarrow> string list \<Rightarrow> string list" where
  "append_unseen existing new = foldl (\<lambda>m u. if u \<in> set m then m else m @ [u]) existing new"

definition merge_evidence :: "string list \<Rightarrow> string list \<Rightarrow> string list" where
  "merge_evidence existing new =
     (if EVIDENCE_URLS_MAX < length (append_unseen existing new)
      then drop (length (append_unseen existing new) - EVIDENCE_URLS_MAX) (append_unseen existing new)
      else append_unseen existing new)"

definition evidence_for :: "deal option \<Rightarrow> string list \<Rightarrow> string list" where
  "evidence_for existing_deal new =
     (case existing_deal of
        None \<Rightarrow> take EVIDENCE_URLS_MAX new
      | Some d \<Rightarrow> merge_evidence (case d_evidence_urls d of None \<Rightarrow> [] | Some es \<Rightarrow> es) new)"

text \<open>
  Rule B on a dismissed deal: whether the deal is revived. \<open>loc\<close> is the offset of the
  machine's time zone, \<open>now\<close> the instant of \<^verbatim>\<open>datetime.now(timezone.utc)\<close>. Every
  exception in the \<^verbatim>\<open>try\<close> block, from the parse or from the subtraction, is caught and
  leaves the deal as it is.
\<close>

definition within_7_days :: "int \<Rightarrow> int \<Rightarrow> iso_text \<Rightarrow> error + bool" where
  "within_7_days loc now dismissed_at_str =
     (case fromisoformat dismissed_at_str of
        Inl e \<Rightarrow> Inl e
      | Inr dismissed_at_dt \<Rightarrow>
          (case datetime_sub (now_utc now)
                  (if tzinfo dismissed_at_dt \<noteq> None
                   then replace_tzinfo_none (astimezone_local loc dismissed_at_dt)
                   else dismissed_at_dt) of
             Inl e \<Rightarrow> Inl e
           | Inr time_diff \<Rightarrow> Inr (time_diff \<le> days 7)))"

definition revive :: "int \<Rightarrow> int \<Rightarrow> deal option \<Rightarrow> bool" where
  "revive loc now existing_deal =
     (case existing_deal of
        None \<Rightarrow> False
      | Some d \<Rightarrow>
          if d_status d = ''shortlisted'' then False
          else if d_status d = ''dismissed'' then
            (case d_dismissed_at d of
               None \<Rightarrow> True
             | Some dismissed_at_str \<Rightarrow>
                 (case within_7_days loc now dismissed_at_str of Inl e \<Rightarrow> False | Inr b \<Rightarrow> b))
          else False)"

definition is_archived :: "deal option \<Rightarrow> bool" where
  "is_archived existing_deal =
     (case existing_deal of None \<Rightarrow> False | Some d \<Rightarrow> d_status d = ''archived'')"

definition next_seen_count :: "deal option \<Rightarrow> int" where
  "next_seen_count existing_deal =
     (case existing_deal of
        None \<Rightarrow> 1
      | Some d \<Rightarrow> (case d_seen_count d of None \<Rightarrow> 0 | Some n \<Rightarrow> n) + 1)"

text \<open>The \<^verbatim>\<open>dedupe_key\<close> of a record: \<^verbatim>\<open>compute_dedupe_key(url, hostname, canonical_name,
  title)\<close> on the fields that the loop derives.\<close>

definition dedupe_key_of :: "(string \<Rightarrow> string) \<Rightarrow> item \<Rightarrow> string" where
  "dedupe_key_of sha1 it =
     compute_dedupe_key sha1 (i_link it) (get_hostname (i_link it))
       (generate_canonical_name it (i_title it) (get_hostname (i_link it))) (i_title it)"

text \<open>The dict \<^verbatim>\<open>data\<close> of one record.\<close>

definition build_data ::
  "(string \<Rightarrow> string) \<Rightarrow> int \<Rightarrow> int \<Rightarrow> string \<Rightarrow> item \<Rightarrow> string list \<Rightarrow> deal option \<Rightarrow> payload" where
  "build_data sha1 loc now topic_name it new_evidence_urls existing_deal =
     \<lparr>p_dedupe_key = dedupe_key_of sha1 it,
      p_title = i_title it,
      p_url = normalize_url (i_link it),
      p_description = i_snippet it,
      p_canonical_name = generate_canonical_name it (i_title it) (get_hostname (i_link it)),
      p_one_liner = generate_one_liner it (i_snippet it) (i_title it),
      p_evidence_urls = evidence_for existing_deal new_evidence_urls,
      p_topic = topic_name,
      p_hostname = get_hostname (i_link it),
      p_last_seen_at = isoformat (now_utc now),
      p_seen_count = next_seen_count existing_deal,
      p_updated_at = isoformat (now_utc now),
      p_created = (if existing_deal = None
                   then Some (isoformat (now_utc now), isoformat (now_utc now)) else None),
      p_status = (if revive loc now existing_deal then Some (''new'', None, None) else None),
      p_score = i_score it\<rparr>"

definition blank :: "string \<Rightarrow> bool" where
  "blank s = (s = [] \<or> strip s = [])"

text \<open>
  The body of the loop for one record, on the counts so far and the client. \<open>Inl\<close> is
  an exception that leaves \<^verbatim>\<open>upsert_deals\<close>: the assertions are outside every \<^verbatim>\<open>try\<close>.
\<close>

definition upsert_deals_item ::
  "(string \<Rightarrow> string) \<Rightarrow> int \<Rightarrow> int \<Rightarrow> string \<Rightarrow> stats \<Rightarrow> client \<Rightarrow> item \<Rightarrow> (error + stats) \<times> client" where
  "upsert_deals_item sha1 loc now topic_name st c it =
     (if i_link it = [] \<or> i_title it = [] then (Inr st, c)
      else
        (case generate_evidence_urls it (i_link it) of
           Inl e \<Rightarrow> (Inl e, c)
         | Inr new_evidence_urls \<Rightarrow>
             if blank (generate_canonical_name it (i_title it) (get_hostname (i_link it)))
             then (Inl AssertionError, c)
             else if blank (generate_one_liner it (i_snippet it) (i_title it))
             then (Inl AssertionError, c)
             else if new_evidence_urls = [] then (Inl AssertionError, c)
             else
               (case select_deal c (dedupe_key_of sha1 it) of
                  (Inl e, c1) \<Rightarrow> (Inr (st\<lparr>errors := errors st + 1\<rparr>), c1)
                | (Inr existing_deal, c1) \<Rightarrow>
                    if is_archived existing_deal then (Inr st, c1)
                    else
                      (case upsert_row c1
                              (build_data sha1 loc now topic_name it new_evidence_urls existing_deal) of
                         (Inl e, c2) \<Rightarrow>
                           (Inr (if revive loc now existing_deal
                                 then st\<lparr>reactivated := reactivated st + 1\<rparr> else st), c2)
                       | (Inr u, c2) \<Rightarrow>
                           (Inr ((if revive loc now existing_deal
                                  then st\<lparr>reactivated := reactivated st + 1\<rparr> else st)
                                   \<lparr>processed := processed st + 1\<rparr>), c2)))))"

fun upsert_deals_loop ::
  "(string \<Rightarrow> string) \<Rightarrow> int \<Rightarrow> int \<Rightarrow> string \<Rightarrow> stats \<Rightarrow> client \<Rightarrow> item list \<Rightarrow> (error + stats) \<times> client" where
  "upsert_deals_loop sha1 loc now topic_name st c [] = (Inr st, c)"
| "upsert_deals_loop sha1 loc now topic_name st c (it # its) =
     (case upsert_deals_item sha1 loc now topic_name st c it of
        (Inl e, c1) \<Rightarrow> (Inl e, c1)
      | (Inr st1, c1) \<Rightarrow> upsert_deals_loop sha1 loc now topic_name st1 c1 its)"

text \<open>\<^verbatim>\<open>upsert_deals(client, items, topic_name)\<close>; \<open>None\<close> is a client that is not there.\<close>

definition upsert_deals ::
  "(string \<Rightarrow> string) \<Rightarrow> int \<Rightarrow> int \<Rightarrow> client option \<Rightarrow> item list \<Rightarrow> string \<Rightarrow> (error + stats) \<times> client option" where
  "upsert_deals sha1 loc now copt items topic_name =
     (case copt of
        None \<Rightarrow> (Inr no_stats, None)
      | Some c \<Rightarrow>
          (fst (upsert_deals_loop sha1 loc now topic_name no_stats c items),
           Some (snd (upsert_deals_loop sha1 loc now topic_name no_stats c items))))"

section \<open>The fallback pass and the health check\<close>

text \<open>The rows that \<^verbatim>\<open>reactivate_dismissed_deals\<close> selects: dismissed, and last seen no
  earlier than seven days before \<open>now\<close>.\<close>

definition seen_recently :: "int \<Rightarrow> deal \<Rightarrow> bool" where
  "seen_recently now d =
     (d_status d = ''dismissed'' \<and>
      (case d_last_seen_at d of None \<Rightarrow> False | Some t \<Rightarrow> now - days 7 \<le> instant_of t))"

definition revive_row :: "int \<Rightarrow> nat \<Rightarrow> deal \<Rightarrow> deal" where
  "revive_row now n d =
     (if d_id d = n
      then d\<lparr>d_status := ''new'', d_dismissed_reason := None, d_dismissed_at := None,
             d_updated_at := Some (isoformat (now_utc now))\<rparr>
      else d)"

text \<open>The loop over the selected ids: each update is a call to the store in a \<^verbatim>\<open>try\<close> of
  its own. The clock is read again for \<^verbatim>\<open>updated_at\<close>; the model writes \<open>now\<close>.\<close>

fun revive_ids :: "int \<Rightarrow> nat \<Rightarrow> client \<Rightarrow> nat list \<Rightarrow> nat \<times> client" where
  "revive_ids now updated_count c [] = (updated_count, c)"
| "revive_ids now updated_count c (n # ns) =
     (if fst (store_call c) then revive_ids now updated_count (snd (store_call c)) ns
      else revive_ids now (Suc updated_count)
             ((snd (store_call c))\<lparr>rows := map (revive_row now n) (rows c)\<rparr>) ns)"

definition reactivate_dismissed_deals :: "client option \<Rightarrow> int \<Rightarrow> nat \<times> client option" where
  "reactivate_dismissed_deals copt now =
     (case copt of
        None \<Rightarrow> (0, None)
      | Some c \<Rightarrow>
          if fst (store_call c) then (0, Some (snd (store_call c)))
          else (fst (revive_ids now 0 (snd (store_call c))
                       (map d_id (filter (seen_recently now) (rows c)))),
                Some (snd (revive_ids now 0 (snd (store_call c))
                       (map d_id (filter (seen_recently now) (rows c)))))))"

record health =
  evidence_over_20 :: nat
  seen_count_null :: nat
  latest_last_seen_at :: "iso_text option"
  archived_updated_last_2h :: nat

definition health_failed :: health where
  "health_failed = \<lparr>evidence_over_20 = 0, seen_count_null = 0, latest_last_seen_at = None,
     archived_updated_last_2h = 0\<rparr>"

text \<open>The latest \<^verbatim>\<open>last_seen_at\<close>. The source compares the texts as strings; the texts of
  one store have one format and one offset, on which that is the order of the
  instants.\<close>

definition later_text :: "iso_text option \<Rightarrow> deal \<Rightarrow> iso_text option" where
  "later_text latest d =
     (case d_last_seen_at d of
        None \<Rightarrow> latest
      | Some t \<Rightarrow>
          (case latest of
             None \<Rightarrow> Some t
           | Some l \<Rightarrow> if instant_of l < instant_of t then Some t else latest))"

text \<open>The instant of the threshold of the archived check: the start of the run, read as
  UTC when it is naive, or sixty minutes before \<open>now\<close>.\<close>

definition threshold_time :: "datetime option \<Rightarrow> int \<Rightarrow> int" where
  "threshold_time run_started_at now =
     (case run_started_at of
        None \<Rightarrow> now - minutes 60
      | Some s \<Rightarrow> (case tzinfo s of None \<Rightarrow> wall s | Some off \<Rightarrow> wall s - off))"

definition archived_after :: "int \<Rightarrow> deal \<Rightarrow> bool" where
  "archived_after threshold d =
     (d_status d = ''archived'' \<and>
      (case d_last_seen_at d of None \<Rightarrow> False | Some t \<Rightarrow> threshold < instant_of t))"

text \<open>\<^verbatim>\<open>health_check_deals(client, run_started_at)\<close>: the first read is in the outer \<^verbatim>\<open>try\<close>,
  the read of the archived rows in an inner one.\<close>

definition health_check_deals ::
  "client option \<Rightarrow> datetime option \<Rightarrow> int \<Rightarrow> health \<times> client option" where
  "health_check_deals copt run_started_at now =
     (case copt of
        None \<Rightarrow> (health_failed, None)
      | Some c \<Rightarrow>
          if fst (store_call c) then (health_failed, Some (snd (store_call c)))
          else
            (\<lparr>evidence_over_20 =
                 length (filter (\<lambda>d. case d_evidence_urls d of None \<Rightarrow> False
                                      | Some es \<Rightarrow> 20 < length es) (rows c)),
               seen_count_null = length (filter (\<lambda>d. d_seen_count d = None) (rows c)),
               latest_last_seen_at = foldl later_text None (rows c),
               archived_updated_last_2h =
                 (if fst (store_call (snd (store_call c))) then 0
                  else length (filter (archived_after (threshold_time run_started_at now)) (rows c)))\<rparr>,
             Some (snd (store_call (snd (store_call c))))))"

section \<open>main\<close>

text \<open>The exit code that \<^verbatim>\<open>main\<close> takes from the health report: 1 when an archived deal
  was updated during the run, else 0. The dict of the report is never empty.\<close>

definition health_exit :: "health \<Rightarrow> int" where
  "health_exit health_result = (if 0 < archived_updated_last_2h health_result then 1 else 0)"

text \<open>The end of \<^verbatim>\<open>main\<close>, from the fallback pass on: the fallback, the health check with
  the start of the run, and the exit code.\<close>

definition main_finish :: "client \<Rightarrow> int \<Rightarrow> int \<Rightarrow> int" where
  "main_finish c start_time now =
     health_exit (fst (health_check_deals (snd (reactivate_dismissed_deals (Some c) now))
        (Some (now_utc start_time)) now))"

section \<open>Records that reach the store\<close>

text \<open>
  A record is accepted with the evidence list \<open>new\<close> when it passes the guard and the
  assertions at the head of the loop: its link and title are not empty,
  \<^verbatim>\<open>generate_evidence_urls\<close> returns \<open>new\<close>, and its canonical name and one-liner are
  not blank.
\<close>

definition accepted :: "item \<Rightarrow> string list \<Rightarrow> bool" where
  "accepted it new = (i_link it \<noteq> [] \<and> i_title it \<noteq> [] \<and>
     generate_evidence_urls it (i_link it) = Inr new \<and>
     \<not> blank (generate_canonical_name it (i_title it) (get_hostname (i_link it))) \<and>
     \<not> blank (generate_one_liner it (i_snippet it) (i_title it)))"

section \<open>URLs of printable characters\<close>












section \<open>Sample data\<close>

text \<open>A record of the search, a record with a blank link, and stored deals of the
  first record's key, for the concrete runs below. Times are microseconds since the
  epoch; a day has 86400000000 of them.\<close>

definition sample_item :: item where
  "sample_item =
     \<lparr>i_link = ''https://Example.com/blog/post/?utm_campaign=x'', i_title = ''Foo - TechCrunch'',
      i_snippet = ''A post about Foo.'', i_source = ''serper'', i_company = [], i_product = [],
      i_name = [], i_canonical_name = [], i_one_liner = [], i_summary = [], i_excerpt = [],
      i_sources = NoField, i_links = NoField, i_evidence_urls = NoField,
      i_related_urls = NoField, i_score = None\<rparr>"

definition blank_link_item :: item where
  "blank_link_item = sample_item\<lparr>i_link := ''   '', i_title := ''Foo''\<rparr>"

definition sample_row :: "(string \<Rightarrow> string) \<Rightarrow> deal" where
  "sample_row sha1 =
     \<lparr>d_id = 7, d_dedupe_key = ''url:'' @ sha1 ''https://example.com/blog/post'',
      d_title = ''Foo'', d_url = ''https://example.com/blog/post'', d_description = [],
      d_canonical_name = ''Foo'', d_one_liner = ''Foo'',
      d_evidence_urls = Some [''https://example.com/blog/post''], d_topic = ''ai'',
      d_hostname = ''example.com'', d_status = ''new'', d_seen_count = Some 3,
      d_first_seen_at = Some (AwareText 1000 0), d_last_seen_at = Some (AwareText 2000 0),
      d_dismissed_reason = None, d_dismissed_at = None, d_score = None,
      d_created_at = Some (AwareText 1000 0), d_updated_at = Some (AwareText 2000 0)\<rparr>"

definition archived_row :: "(string \<Rightarrow> string) \<Rightarrow> deal" where
  "archived_row sha1 = (sample_row sha1)\<lparr>d_status := ''archived''\<rparr>"

definition dismissed_row :: "(string \<Rightarrow> string) \<Rightarrow> iso_text option \<Rightarrow> iso_text option \<Rightarrow> deal" where
  "dismissed_row sha1 dismissed_at last_seen_at =
     (sample_row sha1)\<lparr>d_status := ''dismissed'', d_last_seen_at := last_seen_at,
        d_dismissed_reason := Some ''not relevant'', d_dismissed_at := dismissed_at\<rparr>"

definition twenty_urls :: "string list" where
  "twenty_urls = map (\<lambda>c. ''https://example.com/'' @ [c]) ''abcdefghijklmnopqrst''"

definition full_row :: "(string \<Rightarrow> string) \<Rightarrow> deal" where
  "full_row sha1 = (sample_row sha1)\<lparr>d_evidence_urls := Some twenty_urls\<rparr>"

text \<open>An archived deal with no \<^verbatim>\<open>seen_count\<close>, last seen at the instant 4500.\<close>

definition touched_row :: deal where
  "touched_row = (archived_row (\<lambda>u. u))\<lparr>d_seen_count := None,
     d_last_seen_at := Some (AwareText 4500 0)\<rparr>"

section \<open>Evaluation of the sample records\<close>

lemma query_utm: "clean_query ''utm_campaign=x'' = []"
  by (simp add: clean_query_def filter_query_def parse_qs_def parse_qsl_def partition_at_def
      unquote_plus_def unquote_def codes_def startswith_def)

lemma query_utm_ref: "clean_query ''utm_campaign=y&ref=z'' = []"
  by (simp add: clean_query_def filter_query_def parse_qs_def parse_qsl_def partition_at_def
      unquote_plus_def unquote_def codes_def startswith_def lower_text_def lower_code_def
      tracking_params_def)

lemma sample_norm:
  "normalize_url ''https://Example.com/blog/post/?utm_campaign=x'' = ''https://example.com/blog/post''"
proof -
  have s: "strip ''https://Example.com/blog/post/?utm_campaign=x'' =
      ''https://Example.com/blog/post/?utm_campaign=x''"
    by code_simp
  have p: "urlparse (with_scheme ''https://Example.com/blog/post/?utm_campaign=x'') =
      Inr \<lparr>scheme = ''https'', netloc = ''Example.com'', path = ''/blog/post/'', params = [],
           query = ''utm_campaign=x'', fragment = []\<rparr>"
    by code_simp
  have r: "urlunparse ''https'' (strip_www (lower ''Example.com'')) (strip_slash ''/blog/post/'')
      [] [] [] = ''https://example.com/blog/post''"
    by code_simp
  show ?thesis
    by (simp add: normalize_url_def s p rebuild_url_def query_utm r)
qed

lemma other_norm:
  "normalize_url ''https://example.com/blog/post?utm_campaign=y&ref=z'' = ''https://example.com/blog/post''"
proof -
  have s: "strip ''https://example.com/blog/post?utm_campaign=y&ref=z'' =
      ''https://example.com/blog/post?utm_campaign=y&ref=z''"
    by code_simp
  have p: "urlparse (with_scheme ''https://example.com/blog/post?utm_campaign=y&ref=z'') =
      Inr \<lparr>scheme = ''https'', netloc = ''example.com'', path = ''/blog/post'', params = [],
           query = ''utm_campaign=y&ref=z'', fragment = []\<rparr>"
    by code_simp
  have r: "urlunparse ''https'' (strip_www (lower ''example.com'')) (strip_slash ''/blog/post'')
      [] [] [] = ''https://example.com/blog/post''"
    by code_simp
  show ?thesis
    by (simp add: normalize_url_def s p rebuild_url_def query_utm_ref r)
qed

lemma blank_link_norm: "normalize_url ''   '' = []"
  by code_simp

text \<open>An escape of a character beyond ASCII is decoded and encoded again.\<close>

lemma escaped_norm:
  "normalize_url ''https://e.com/?q=%C3%A9'' = ''https://e.com/?q=%C3%A9''"
proof -
  have s: "strip ''https://e.com/?q=%C3%A9'' = ''https://e.com/?q=%C3%A9''"
    by code_simp
  have p: "urlparse (with_scheme ''https://e.com/?q=%C3%A9'') =
      Inr \<lparr>scheme = ''https'', netloc = ''e.com'', path = ''/'', params = [],
           query = ''q=%C3%A9'', fragment = []\<rparr>"
    by code_simp
  have q: "parse_qs ''q=%C3%A9'' = [([113], [[233]])]"
    by (simp add: parse_qs_def parse_qsl_def partition_at_def unquote_plus_def unquote_def
        codes_def is_hexdig_def hex_val_def second_byte_def cont_byte_def)
  have f: "filter_query [([113], [[233]])] = [([113], [233])]"
    by (simp add: filter_query_def startswith_def codes_def lower_text_def lower_code_def
        tracking_params_def)
  have e: "urlencode [([113], [233])] = ''q=%C3%A9''"
    by code_simp
  have c: "clean_query ''q=%C3%A9'' = ''q=%C3%A9''"
    by (simp add: clean_query_def q f e)
  have r: "urlunparse ''https'' (strip_www (lower ''e.com'')) (strip_slash ''/'')
      [] ''q=%C3%A9'' [] = ''https://e.com/?q=%C3%A9''"
    by code_simp
  show ?thesis
    by (simp add: normalize_url_def s p rebuild_url_def c r)
qed

lemma sample_host: "get_hostname ''https://Example.com/blog/post/?utm_campaign=x'' = ''Example.com''"
  by code_simp

lemma sample_cname: "generate_canonical_name sample_item ''Foo - TechCrunch'' ''Example.com'' = ''Foo''"
  by code_simp

lemma sample_one_liner:
  "generate_one_liner sample_item ''A post about Foo.'' ''Foo - TechCrunch'' = ''A post about Foo.''"
  by code_simp

lemma sample_evidence:
  "generate_evidence_urls sample_item ''https://Example.com/blog/post/?utm_campaign=x'' =
     Inr [''https://example.com/blog/post'']"
  by (simp add: generate_evidence_urls_def add_url_def sample_norm extra_urls_def field_urls_def
      sample_item_def)

lemma sample_key: "dedupe_key_of sha1 sample_item = ''url:'' @ sha1 ''https://example.com/blog/post''"
  by (simp add: dedupe_key_of_def compute_dedupe_key_def sample_item_def sample_norm)

lemma not_blank_Foo: "\<not> blank ''Foo''"
  by code_simp

lemma not_blank_post: "\<not> blank ''A post about Foo.''"
  by code_simp

lemma sample_accepted: "accepted sample_item [''https://example.com/blog/post'']"
  using sample_evidence sample_cname sample_one_liner not_blank_Foo not_blank_post
  by (simp add: accepted_def sample_item_def sample_host)

lemma twenty_urls_distinct: "distinct twenty_urls"
  by code_simp

lemma twenty_urls_merge:
  "merge_evidence twenty_urls [''https://example.com/blog/post''] =
     drop 1 twenty_urls @ [''https://example.com/blog/post'']"
  by code_simp

section \<open>The loop body, case by case\<close>

lemma evidence_nonempty: "generate_evidence_urls it u = Inr new \<Longrightarrow> new \<noteq> []"
  by (auto simp add: generate_evidence_urls_def Let_def split: if_splits)

lemma rows_store_call [simp]: "rows (snd (store_call c)) = rows c"
  by (simp add: store_call_def split: list.splits)

lemma next_id_store_call [simp]: "next_id (snd (store_call c)) = next_id c"
  by (simp add: store_call_def split: list.splits)

lemma store_call_no_fault:
  "True \<notin> set (faults c) \<Longrightarrow> \<not> fst (store_call c) \<and> True \<notin> set (faults (snd (store_call c)))"
  by (cases "faults c") (auto simp add: store_call_def)

lemma upsert_item_lookup_fails:
  assumes "accepted it new" and "fst (store_call c)"
  shows "upsert_deals_item sha1 loc now topic_name st c it =
           (Inr (st\<lparr>errors := errors st + 1\<rparr>), snd (store_call c))"
  using assms evidence_nonempty [of it "i_link it" new]
  by (simp add: accepted_def upsert_deals_item_def select_deal_def)

lemma upsert_item_archived:
  assumes "accepted it new" and "\<not> fst (store_call c)"
    and "is_archived (find (has_key (dedupe_key_of sha1 it)) (rows c))"
  shows "upsert_deals_item sha1 loc now topic_name st c it = (Inr st, snd (store_call c))"
  using assms evidence_nonempty [of it "i_link it" new]
  by (simp add: accepted_def upsert_deals_item_def select_deal_def)

lemma upsert_item_write_fails:
  assumes "accepted it new" and "\<not> fst (store_call c)"
    and "\<not> is_archived (find (has_key (dedupe_key_of sha1 it)) (rows c))"
    and "fst (store_call (snd (store_call c)))"
  shows "upsert_deals_item sha1 loc now topic_name st c it =
           (Inr (if revive loc now (find (has_key (dedupe_key_of sha1 it)) (rows c))
                 then st\<lparr>reactivated := reactivated st + 1\<rparr> else st),
            snd (store_call (snd (store_call c))))"
  using assms evidence_nonempty [of it "i_link it" new]
  by (simp add: accepted_def upsert_deals_item_def select_deal_def upsert_row_def)

lemma upsert_item_written:
  assumes "accepted it new" and "\<not> fst (store_call c)"
    and "\<not> is_archived (find (has_key (dedupe_key_of sha1 it)) (rows c))"
    and "\<not> fst (store_call (snd (store_call c)))"
  shows "upsert_deals_item sha1 loc now topic_name st c it =
           (Inr ((if revive loc now (find (has_key (dedupe_key_of sha1 it)) (rows c))
                  then st\<lparr>reactivated := reactivated st + 1\<rparr> else st)\<lparr>processed := processed st + 1\<rparr>),
            snd (upsert_row (snd (store_call c))
                   (build_data sha1 loc now topic_name it new
                      (find (has_key (dedupe_key_of sha1 it)) (rows c)))))"
  using assms evidence_nonempty [of it "i_link it" new]
  by (simp add: accepted_def upsert_deals_item_def select_deal_def upsert_row_def)

lemma upsert_deals_loop_single:
  "upsert_deals_loop sha1 loc now topic_name st c [it] = upsert_deals_item sha1 loc now topic_name st c it"
  by (cases "upsert_deals_item sha1 loc now topic_name st c it") (auto split: sum.splits)

lemma upsert_deals_loop_append:
  "upsert_deals_loop sha1 loc now topic_name st c pre = (Inr st1, c1) \<Longrightarrow>
   upsert_deals_loop sha1 loc now topic_name st c (pre @ its) =
   upsert_deals_loop sha1 loc now topic_name st1 c1 its"
  by (induction pre arbitrary: st c) (auto split: prod.splits sum.splits)

lemma update_row_key [simp]: "d_dedupe_key (update_row p d) = d_dedupe_key d"
  by (simp add: update_row_def)

lemma find_map_update:
  "find (has_key k) (map (\<lambda>d. if has_key k d then update_row p d else d) ds) =
   map_option (update_row p) (find (has_key k) ds)"
  by (induction ds) (simp_all add: has_key_def)

lemma find_Some_list_ex: "find P xs = Some x \<Longrightarrow> list_ex P xs"
  by (induction xs) (auto split: if_splits)

section \<open>The dedupe key\<close>

text \<open>
  C8. \<^verbatim>\<open>compute_dedupe_key\<close> depends on the normalised URL alone when that is not empty:
  two records whose URLs normalise to the same non-empty string get the same key,
  whatever their hostnames, canonical names and titles are.
\<close>

theorem dedupe_key_depends_on_normalized_url:
  assumes "normalize_url u1 = normalize_url u2" and "normalize_url u1 \<noteq> []"
  shows "compute_dedupe_key sha1 u1 host1 cname1 t1 = compute_dedupe_key sha1 u2 host2 cname2 t2"
  using assms by (simp add: compute_dedupe_key_def)

theorem dedupe_key_depends_on_normalized_url_witness:
  "normalize_url ''https://Example.com/blog/post/?utm_campaign=x'' =
     normalize_url ''https://example.com/blog/post?utm_campaign=y&ref=z'' \<and>
   normalize_url ''https://Example.com/blog/post/?utm_campaign=x'' \<noteq> [] \<and>
   (\<forall>sha1. compute_dedupe_key sha1 ''https://Example.com/blog/post/?utm_campaign=x''
               ''Example.com'' ''Foo'' ''Foo - TechCrunch'' =
            compute_dedupe_key sha1 ''https://example.com/blog/post?utm_campaign=y&ref=z''
               ''example.com'' ''foo'' ''foo'')"
proof -
  have a: "normalize_url ''https://Example.com/blog/post/?utm_campaign=x'' =
     normalize_url ''https://example.com/blog/post?utm_campaign=y&ref=z''"
    by (simp add: sample_norm other_norm)
  have b: "normalize_url ''https://Example.com/blog/post/?utm_campaign=x'' \<noteq> []"
    by (simp add: sample_norm)
  show ?thesis
    using a b dedupe_key_depends_on_normalized_url [OF a b] by blast
qed

section \<open>Archived deals\<close>

lemma item_archived_no_write:
  assumes "find (has_key (dedupe_key_of sha1 it)) (rows c) = Some d" and "d_status d = ''archived''"
  shows "rows (snd (upsert_deals_item sha1 loc now topic_name st c it)) = rows c"
  using assms
  by (auto simp add: upsert_deals_item_def select_deal_def store_call_def is_archived_def
      split: sum.splits list.splits prod.splits if_splits)

text \<open>
  C2. When the deal stored under the key of a record is archived, processing the record
  writes nothing: the rows of the table, and so every column of the deal, are the same
  after the call, whether or not the calls to the store succeed.
\<close>

theorem archived_deal_is_never_written:
  assumes "find (has_key (dedupe_key_of sha1 it)) (rows c) = Some d" and "d_status d = ''archived''"
  shows "map_option rows (snd (upsert_deals sha1 loc now (Some c) [it] topic_name)) = Some (rows c)"
  using item_archived_no_write [OF assms, of loc now topic_name no_stats]
  by (simp add: upsert_deals_def upsert_deals_loop_single del: upsert_deals_loop.simps)

theorem archived_deal_is_never_written_witness:
  "\<forall>sha1. map_option rows (snd (upsert_deals sha1 0 1000000000000
       (Some \<lparr>rows = [archived_row sha1], faults = [], next_id = 8\<rparr>) [sample_item] ''ai''))
     = Some [archived_row sha1]"
proof
  fix sha1 :: "string \<Rightarrow> string"
  have f: "find (has_key (dedupe_key_of sha1 sample_item))
      (rows \<lparr>rows = [archived_row sha1], faults = [], next_id = 8\<rparr>) = Some (archived_row sha1)"
    by (simp add: sample_key has_key_def archived_row_def sample_row_def)
  have s: "d_status (archived_row sha1) = ''archived''"
    by (simp add: archived_row_def)
  show "map_option rows (snd (upsert_deals sha1 0 1000000000000
       (Some \<lparr>rows = [archived_row sha1], faults = [], next_id = 8\<rparr>) [sample_item] ''ai''))
     = Some [archived_row sha1]"
    using archived_deal_is_never_written [OF f s, of 0 1000000000000 "''ai''"] by simp
qed

section \<open>Failures of the store\<close>

text \<open>
  C6. The claim is that a record whose write fails is counted in \<open>errors\<close>. The code
  counts a failed lookup only: on a batch of one record whose lookup succeeds and whose
  write raises, \<^verbatim>\<open>upsert_deals\<close> returns \<open>errors = 0\<close> and \<open>processed = 0\<close>. The loop goes
  on in both cases.
\<close>

theorem write_failure_is_not_counted:
  "\<forall>sha1. upsert_deals sha1 0 1000000000000
      (Some \<lparr>rows = [], faults = [False, True], next_id = 1\<rparr>) [sample_item] ''ai'' =
    (Inr \<lparr>processed = 0, reactivated = 0, errors = 0\<rparr>,
     Some \<lparr>rows = [], faults = [], next_id = 1\<rparr>)"
proof
  fix sha1 :: "string \<Rightarrow> string"
  have "upsert_deals_item sha1 0 1000000000000 ''ai'' no_stats
          \<lparr>rows = [], faults = [False, True], next_id = 1\<rparr> sample_item =
        (Inr no_stats, \<lparr>rows = [], faults = [], next_id = 1\<rparr>)"
    by (subst upsert_item_write_fails [OF sample_accepted])
      (simp_all add: store_call_def is_archived_def revive_def)
  then show "upsert_deals sha1 0 1000000000000
      (Some \<lparr>rows = [], faults = [False, True], next_id = 1\<rparr>) [sample_item] ''ai'' =
    (Inr \<lparr>processed = 0, reactivated = 0, errors = 0\<rparr>,
     Some \<lparr>rows = [], faults = [], next_id = 1\<rparr>)"
    by (simp add: upsert_deals_def no_stats_def)
qed

text \<open>A failed lookup is counted, and a failure of either kind leaves the rest of the
  batch to be processed.\<close>

lemma lookup_failure_is_counted:
  assumes "accepted it new" and "fst (store_call c)"
  shows "upsert_deals_loop sha1 loc now topic_name st c (it # its) =
         upsert_deals_loop sha1 loc now topic_name (st\<lparr>errors := errors st + 1\<rparr>) (snd (store_call c)) its"
  using upsert_item_lookup_fails [OF assms, of sha1 loc now topic_name st] by simp

lemma write_failure_goes_on:
  assumes "accepted it new" and "\<not> fst (store_call c)"
    and "\<not> is_archived (find (has_key (dedupe_key_of sha1 it)) (rows c))"
    and "fst (store_call (snd (store_call c)))"
  shows "upsert_deals_loop sha1 loc now topic_name st c (it # its) =
         upsert_deals_loop sha1 loc now topic_name
           (if revive loc now (find (has_key (dedupe_key_of sha1 it)) (rows c))
            then st\<lparr>reactivated := reactivated st + 1\<rparr> else st)
           (snd (store_call (snd (store_call c)))) its"
  using upsert_item_write_fails [OF assms, of loc now topic_name st] by simp

section \<open>Rule B in the loop\<close>

text \<open>The subtraction in Rule B never succeeds: \<open>now\<close> carries an offset and the parsed
  time stamp is naive, or is made naive. So a time stamp that is there never revives.\<close>

lemma within_7_days_raises:
  "within_7_days loc now t = Inl TypeError \<or> within_7_days loc now t = Inl ValueError"
  by (cases t)
    (simp_all add: within_7_days_def fromisoformat_def datetime_sub_def now_utc_def
      replace_tzinfo_none_def astimezone_local_def)

lemma revive_dismissed_at_present:
  "d_dismissed_at d = Some t \<Longrightarrow> revive loc now (Some d) = False"
  using within_7_days_raises [of loc now t] by (auto simp add: revive_def)

text \<open>
  C1. The claim is that a dismissed deal is revived when it is seen again within seven
  days of \<^verbatim>\<open>dismissed_at\<close>. The code does not do so: a deal dismissed three days
  (259200000000 microseconds) before \<open>now\<close> is written with its new count and stays
  dismissed, and no revival is counted.
\<close>

theorem dismissed_three_days_ago_stays_dismissed:
  "\<forall>sha1.
     fst (upsert_deals sha1 0 1000000000000
       (Some \<lparr>rows = [dismissed_row sha1 (Some (AwareText 740800000000 0)) (Some (AwareText 740000000000 0))],
              faults = [], next_id = 8\<rparr>) [sample_item] ''ai'') =
       Inr \<lparr>processed = 1, reactivated = 0, errors = 0\<rparr> \<and>
     map_option (\<lambda>c. map (\<lambda>d. (d_status d, d_dismissed_at d, d_seen_count d)) (rows c))
       (snd (upsert_deals sha1 0 1000000000000
         (Some \<lparr>rows = [dismissed_row sha1 (Some (AwareText 740800000000 0)) (Some (AwareText 740000000000 0))],
                faults = [], next_id = 8\<rparr>) [sample_item] ''ai'')) =
       Some [(''dismissed'', Some (AwareText 740800000000 0), Some 4)]"
proof
  fix sha1 :: "string \<Rightarrow> string"
  let ?d = "dismissed_row sha1 (Some (AwareText 740800000000 0)) (Some (AwareText 740000000000 0))"
  let ?c = "\<lparr>rows = [?d], faults = [], next_id = 8\<rparr>"
  have f: "find (has_key (dedupe_key_of sha1 sample_item)) (rows ?c) = Some ?d"
    by (simp add: sample_key has_key_def dismissed_row_def sample_row_def)
  have r: "revive 0 1000000000000 (Some ?d) = False"
    by (rule revive_dismissed_at_present) (simp add: dismissed_row_def)
  have "upsert_deals_item sha1 0 1000000000000 ''ai'' no_stats ?c sample_item =
        (Inr (no_stats\<lparr>processed := 1\<rparr>),
         snd (upsert_row (snd (store_call ?c))
                (build_data sha1 0 1000000000000 ''ai'' sample_item [''https://example.com/blog/post'']
                   (Some ?d))))"
    using f r
    by (subst upsert_item_written [OF sample_accepted])
      (simp_all add: store_call_def is_archived_def dismissed_row_def sample_row_def no_stats_def)
  then show "fst (upsert_deals sha1 0 1000000000000 (Some ?c) [sample_item] ''ai'') =
       Inr \<lparr>processed = 1, reactivated = 0, errors = 0\<rparr> \<and>
     map_option (\<lambda>c. map (\<lambda>d. (d_status d, d_dismissed_at d, d_seen_count d)) (rows c))
       (snd (upsert_deals sha1 0 1000000000000 (Some ?c) [sample_item] ''ai'')) =
       Some [(''dismissed'', Some (AwareText 740800000000 0), Some 4)]"
    using r
    by (simp add: upsert_deals_def no_stats_def upsert_row_def store_call_def build_data_def
        sample_key has_key_def update_row_def next_seen_count_def dismissed_row_def sample_row_def)
qed

section \<open>The fallback pass\<close>

text \<open>
  C9. The claim is that no pass of a run revives a dismissed deal outside the window of
  seven days after \<^verbatim>\<open>dismissed_at\<close>. The fallback pass selects by \<^verbatim>\<open>last_seen_at\<close>: a deal
  dismissed ten days (864000000000 microseconds) before \<open>now\<close> and seen again in the
  batch is left dismissed by the loop, which sets its \<^verbatim>\<open>last_seen_at\<close> to \<open>now\<close>, and is
  then revived by \<^verbatim>\<open>reactivate_dismissed_deals\<close> a minute later.
\<close>

theorem fallback_revives_deal_dismissed_ten_days_ago:
  "\<forall>sha1.
     map_option (\<lambda>c. map (\<lambda>d. (d_status d, d_dismissed_at d)) (rows c))
       (snd (upsert_deals sha1 0 1000000000000
         (Some \<lparr>rows = [dismissed_row sha1 (Some (AwareText 136000000000 0)) (Some (AwareText 136000000000 0))],
                faults = [], next_id = 8\<rparr>) [sample_item] ''ai'')) =
       Some [(''dismissed'', Some (AwareText 136000000000 0))] \<and>
     fst (reactivate_dismissed_deals
       (snd (upsert_deals sha1 0 1000000000000
         (Some \<lparr>rows = [dismissed_row sha1 (Some (AwareText 136000000000 0)) (Some (AwareText 136000000000 0))],
                faults = [], next_id = 8\<rparr>) [sample_item] ''ai'')) 1000060000000) = 1 \<and>
     map_option (\<lambda>c. map (\<lambda>d. (d_status d, d_dismissed_at d)) (rows c))
       (snd (reactivate_dismissed_deals
         (snd (upsert_deals sha1 0 1000000000000
           (Some \<lparr>rows = [dismissed_row sha1 (Some (AwareText 136000000000 0)) (Some (AwareText 136000000000 0))],
                  faults = [], next_id = 8\<rparr>) [sample_item] ''ai'')) 1000060000000)) =
       Some [(''new'', None)]"
proof
  fix sha1 :: "string \<Rightarrow> string"
  let ?d = "dismissed_row sha1 (Some (AwareText 136000000000 0)) (Some (AwareText 136000000000 0))"
  let ?c = "\<lparr>rows = [?d], faults = [], next_id = 8\<rparr>"
  let ?d1 = "update_row (build_data sha1 0 1000000000000 ''ai'' sample_item
                [''https://example.com/blog/post''] (Some ?d)) ?d"
  have f: "find (has_key (dedupe_key_of sha1 sample_item)) (rows ?c) = Some ?d"
    by (simp add: sample_key has_key_def dismissed_row_def sample_row_def)
  have r: "revive 0 1000000000000 (Some ?d) = False"
    by (rule revive_dismissed_at_present) (simp add: dismissed_row_def)
  have "upsert_deals_item sha1 0 1000000000000 ''ai'' no_stats ?c sample_item =
        (Inr (no_stats\<lparr>processed := 1\<rparr>),
         snd (upsert_row (snd (store_call ?c))
                (build_data sha1 0 1000000000000 ''ai'' sample_item [''https://example.com/blog/post'']
                   (Some ?d))))"
    using f r
    by (subst upsert_item_written [OF sample_accepted])
      (simp_all add: store_call_def is_archived_def dismissed_row_def sample_row_def no_stats_def)
  then have u: "snd (upsert_deals sha1 0 1000000000000 (Some ?c) [sample_item] ''ai'') =
      Some \<lparr>rows = [?d1], faults = [], next_id = 8\<rparr>"
    by (simp add: upsert_deals_def upsert_row_def store_call_def build_data_def sample_key
        has_key_def dismissed_row_def sample_row_def)
  have s: "d_status ?d1 = ''dismissed''" "d_dismissed_at ?d1 = Some (AwareText 136000000000 0)"
    "d_last_seen_at ?d1 = Some (AwareText 1000000000000 0)" "d_id ?d1 = 7"
    using r
    by (simp_all add: update_row_def build_data_def dismissed_row_def sample_row_def
        isoformat_def now_utc_def)
  have q: "seen_recently 1000060000000 ?d1"
    using s by (simp add: seen_recently_def instant_of_def days_def)
  show "map_option (\<lambda>c. map (\<lambda>d. (d_status d, d_dismissed_at d)) (rows c))
       (snd (upsert_deals sha1 0 1000000000000 (Some ?c) [sample_item] ''ai'')) =
       Some [(''dismissed'', Some (AwareText 136000000000 0))] \<and>
     fst (reactivate_dismissed_deals
       (snd (upsert_deals sha1 0 1000000000000 (Some ?c) [sample_item] ''ai'')) 1000060000000) = 1 \<and>
     map_option (\<lambda>c. map (\<lambda>d. (d_status d, d_dismissed_at d)) (rows c))
       (snd (reactivate_dismissed_deals
         (snd (upsert_deals sha1 0 1000000000000 (Some ?c) [sample_item] ''ai'')) 1000060000000)) =
       Some [(''new'', None)]"
    using s q
    by (simp add: u reactivate_dismissed_deals_def store_call_def revive_row_def)
qed

section \<open>A record whose URL cannot be resolved\<close>

lemma foldl_add_url_empty:
  "list_all (\<lambda>u. normalize_url u = []) us \<Longrightarrow> foldl add_url [] us = []"
  by (induction us) (simp_all add: add_url_def)

lemma no_url_raises:
  assumes "normalize_url (i_link it) = []" and "list_all (\<lambda>u. normalize_url u = []) (extra_urls it)"
  shows "generate_evidence_urls it (i_link it) = Inl AssertionError"
  using assms foldl_add_url_empty [of "extra_urls it"]
  by (simp add: generate_evidence_urls_def add_url_def)

lemma empty_link_is_skipped_uncounted:
  "i_link it = [] \<Longrightarrow> upsert_deals_item sha1 loc now topic_name st c it = (Inr st, c)"
  by (simp add: upsert_deals_item_def)

text \<open>
  C5. The claim is that a record whose URL normalises to the empty string is skipped,
  counted as an error, and does not stop the rest of the batch. The code does not do
  that for a record with a link of white space and a title: the guard at the head of
  the loop tests the link as it is and lets it pass, the assertion at the end of
  \<^verbatim>\<open>generate_evidence_urls\<close> fails outside every \<^verbatim>\<open>try\<close> block, \<^verbatim>\<open>upsert_deals\<close> ends with
  the exception in place of the counts, and the record after it is not processed.
\<close>

theorem blank_url_is_not_skipped_and_counted:
  "normalize_url (i_link blank_link_item) = [] \<and> i_title blank_link_item = ''Foo'' \<and>
   (\<forall>sha1. upsert_deals sha1 0 1000000000000 (Some \<lparr>rows = [], faults = [], next_id = 1\<rparr>)
      [blank_link_item, sample_item] ''ai'' =
     (Inl AssertionError, Some \<lparr>rows = [], faults = [], next_id = 1\<rparr>))"
proof -
  have n: "normalize_url (i_link blank_link_item) = []"
    by (simp add: blank_link_item_def sample_item_def blank_link_norm)
  have e: "generate_evidence_urls blank_link_item (i_link blank_link_item) = Inl AssertionError"
    by (rule no_url_raises [OF n])
      (simp add: blank_link_item_def sample_item_def extra_urls_def field_urls_def)
  have "\<And>sha1. upsert_deals_item sha1 0 1000000000000 ''ai'' no_stats
      \<lparr>rows = [], faults = [], next_id = 1\<rparr> blank_link_item =
      (Inl AssertionError, \<lparr>rows = [], faults = [], next_id = 1\<rparr>)"
    using e by (simp add: upsert_deals_item_def blank_link_item_def sample_item_def)
  then show ?thesis
    using n by (simp add: upsert_deals_def) (simp add: blank_link_item_def)
qed

section \<open>The evidence list\<close>

lemma append_unseen_distinct: "distinct es \<Longrightarrow> distinct (append_unseen es new)"
  unfolding append_unseen_def by (induction new arbitrary: es) simp_all

lemma append_unseen_filter:
  "distinct new \<Longrightarrow> append_unseen es new = es @ filter (\<lambda>u. u \<notin> set es) new"
  unfolding append_unseen_def
proof (induction new arbitrary: es)
  case Nil
  then show ?case by simp
next
  case (Cons u new)
  have "filter (\<lambda>x. x \<noteq> u \<and> x \<notin> set es) new = filter (\<lambda>x. x \<notin> set es) new"
    using Cons.prems by (intro filter_cong) auto
  then show ?case
    using Cons by simp
qed

lemma merge_evidence_distinct: "distinct es \<Longrightarrow> distinct (merge_evidence es new)"
  by (simp add: merge_evidence_def append_unseen_distinct)

lemma merge_evidence_length: "length (merge_evidence es new) \<le> 20"
  by (simp add: merge_evidence_def EVIDENCE_URLS_MAX_def)

lemma foldl_add_url_distinct: "distinct acc \<Longrightarrow> distinct (foldl add_url acc us)"
  by (induction us arbitrary: acc) (simp_all add: add_url_def)

lemma evidence_distinct: "generate_evidence_urls it u = Inr new \<Longrightarrow> distinct new"
  by (auto simp add: generate_evidence_urls_def Let_def add_url_def
      intro!: foldl_add_url_distinct split: if_splits)

text \<open>
  C7. When an accepted record is merged into an existing deal that is not archived and
  whose stored evidence list \<open>es\<close> has no duplicates, and the lookup and the write
  succeed, the evidence list stored under the key has no duplicates and at most 20
  entries. It is \<open>es\<close> followed by the new URLs that are not in \<open>es\<close>; when that has more
  than 20 entries, it is the last 20 of them.
\<close>

theorem evidence_stays_distinct_and_bounded:
  assumes "accepted it new"
    and "\<not> fst (store_call c)" and "\<not> fst (store_call (snd (store_call c)))"
    and "find (has_key (dedupe_key_of sha1 it)) (rows c) = Some d"
    and "d_status d \<noteq> ''archived''"
    and "d_evidence_urls d = Some es" and "distinct es"
  shows "map_option d_evidence_urls
           (find (has_key (dedupe_key_of sha1 it))
              (rows (snd (upsert_deals_item sha1 loc now topic_name st c it)))) =
           Some (Some (merge_evidence es new)) \<and>
         distinct (merge_evidence es new) \<and>
         length (merge_evidence es new) \<le> 20 \<and>
         merge_evidence es new =
           (if 20 < length (es @ filter (\<lambda>u. u \<notin> set es) new)
            then drop (length (es @ filter (\<lambda>u. u \<notin> set es) new) - 20)
                   (es @ filter (\<lambda>u. u \<notin> set es) new)
            else es @ filter (\<lambda>u. u \<notin> set es) new)"
proof -
  let ?k = "dedupe_key_of sha1 it"
  let ?p = "build_data sha1 loc now topic_name it new (Some d)"
  have na: "\<not> is_archived (find (has_key ?k) (rows c))"
    using assms(4,5) by (simp add: is_archived_def)
  have step: "snd (upsert_deals_item sha1 loc now topic_name st c it) =
      snd (upsert_row (snd (store_call c)) ?p)"
    using upsert_item_written [OF assms(1,2) na assms(3), of loc now topic_name st] assms(4)
    by simp
  have key: "p_dedupe_key ?p = ?k"
    by (simp add: build_data_def)
  have ex: "list_ex (has_key ?k) (rows c)"
    by (rule find_Some_list_ex [OF assms(4)])
  have rows': "rows (snd (upsert_row (snd (store_call c)) ?p)) =
      map (\<lambda>d. if has_key ?k d then update_row ?p d else d) (rows c)"
    using assms(3) ex by (simp add: upsert_row_def key)
  have ev: "d_evidence_urls (update_row ?p d) = Some (merge_evidence es new)"
    using assms(6) by (simp add: update_row_def build_data_def evidence_for_def)
  have dn: "distinct new"
    using assms(1) by (auto simp add: accepted_def dest: evidence_distinct)
  show ?thesis
    using assms(4,7) ev dn
    by (simp add: step rows' find_map_update merge_evidence_distinct merge_evidence_length)
      (simp add: merge_evidence_def append_unseen_filter EVIDENCE_URLS_MAX_def)
qed

theorem evidence_stays_distinct_and_bounded_witness:
  "\<forall>sha1. map_option d_evidence_urls
       (find (has_key (dedupe_key_of sha1 sample_item))
          (rows (snd (upsert_deals_item sha1 0 1000000000000 ''ai'' no_stats
             \<lparr>rows = [full_row sha1], faults = [], next_id = 8\<rparr> sample_item)))) =
     Some (Some (drop 1 twenty_urls @ [''https://example.com/blog/post'']))"
proof
  fix sha1 :: "string \<Rightarrow> string"
  let ?c = "\<lparr>rows = [full_row sha1], faults = [], next_id = 8\<rparr>"
  have a: "\<not> fst (store_call ?c)" and b: "\<not> fst (store_call (snd (store_call ?c)))"
    by (simp_all add: store_call_def)
  have f: "find (has_key (dedupe_key_of sha1 sample_item)) (rows ?c) = Some (full_row sha1)"
    by (simp add: sample_key has_key_def full_row_def sample_row_def)
  have s: "d_status (full_row sha1) \<noteq> ''archived''"
    and e: "d_evidence_urls (full_row sha1) = Some twenty_urls"
    by (simp_all add: full_row_def sample_row_def)
  show "map_option d_evidence_urls
       (find (has_key (dedupe_key_of sha1 sample_item))
          (rows (snd (upsert_deals_item sha1 0 1000000000000 ''ai'' no_stats ?c sample_item)))) =
     Some (Some (drop 1 twenty_urls @ [''https://example.com/blog/post'']))"
    using evidence_stays_distinct_and_bounded [OF sample_accepted a b f s e twenty_urls_distinct,
        of 0 1000000000000 "''ai''" no_stats, THEN conjunct1]
    by (simp only: twenty_urls_merge)
qed

section \<open>The same record twice\<close>

lemma new_record_written:
  assumes "accepted it new" and "True \<notin> set (faults c)"
    and "find (has_key (dedupe_key_of sha1 it)) (rows c) = None"
  shows "rows (snd (upsert_deals_item sha1 loc now topic_name st c it)) =
           rows c @ [update_row (build_data sha1 loc now topic_name it new None)
                       (default_row (next_id c) (dedupe_key_of sha1 it))] \<and>
         True \<notin> set (faults (snd (upsert_deals_item sha1 loc now topic_name st c it)))"
proof -
  have n1: "\<not> fst (store_call c)" and f1: "True \<notin> set (faults (snd (store_call c)))"
    using store_call_no_fault [OF assms(2)] by simp_all
  have n2: "\<not> fst (store_call (snd (store_call c)))"
    and f2: "True \<notin> set (faults (snd (store_call (snd (store_call c)))))"
    using store_call_no_fault [OF f1] by simp_all
  have na: "\<not> is_archived (find (has_key (dedupe_key_of sha1 it)) (rows c))"
    using assms(3) by (simp add: is_archived_def)
  have nex: "\<not> list_ex (has_key (dedupe_key_of sha1 it)) (rows c)"
    using assms(3) by (simp add: find_None_iff list_ex_iff)
  show ?thesis
    using upsert_item_written [OF assms(1) n1 na n2, of loc now topic_name st] assms(3) n2 f2 nex
    by (simp add: upsert_row_def build_data_def)
qed

lemma seen_record_written:
  assumes "accepted it new" and "True \<notin> set (faults c)"
    and "rows c = [d]" and "d_dedupe_key d = dedupe_key_of sha1 it" and "d_status d \<noteq> ''archived''"
  shows "rows (snd (upsert_deals_item sha1 loc now topic_name st c it)) =
           [update_row (build_data sha1 loc now topic_name it new (Some d)) d] \<and>
         True \<notin> set (faults (snd (upsert_deals_item sha1 loc now topic_name st c it)))"
proof -
  have n1: "\<not> fst (store_call c)" and f1: "True \<notin> set (faults (snd (store_call c)))"
    using store_call_no_fault [OF assms(2)] by simp_all
  have n2: "\<not> fst (store_call (snd (store_call c)))"
    and f2: "True \<notin> set (faults (snd (store_call (snd (store_call c)))))"
    using store_call_no_fault [OF f1] by simp_all
  have fd: "find (has_key (dedupe_key_of sha1 it)) (rows c) = Some d"
    using assms(3,4) by (simp add: has_key_def)
  have na: "\<not> is_archived (find (has_key (dedupe_key_of sha1 it)) (rows c))"
    using fd assms(5) by (simp add: is_archived_def)
  show ?thesis
    using upsert_item_written [OF assms(1) n1 na n2, of loc now topic_name st] fd n2 f2 assms(3,4)
    by (simp add: upsert_row_def build_data_def has_key_def)
qed

text \<open>
  C4. Starting from an empty table, with no failure of the store, an accepted record
  that is ingested twice leaves exactly one deal: after the first call the table holds
  one deal under the record's key with \<^verbatim>\<open>seen_count = 1\<close>, after the second one deal under
  the same key with \<^verbatim>\<open>seen_count = 2\<close>.
\<close>

theorem same_record_twice_gives_one_deal:
  assumes "accepted it new" and "True \<notin> set fs"
  shows "map_option (\<lambda>c. map (\<lambda>d. (d_dedupe_key d, d_seen_count d)) (rows c))
           (snd (upsert_deals sha1 loc now1 (Some \<lparr>rows = [], faults = fs, next_id = n\<rparr>) [it] topic_name)) =
           Some [(dedupe_key_of sha1 it, Some 1)] \<and>
         map_option (\<lambda>c. map (\<lambda>d. (d_dedupe_key d, d_seen_count d)) (rows c))
           (snd (upsert_deals sha1 loc now2
              (snd (upsert_deals sha1 loc now1 (Some \<lparr>rows = [], faults = fs, next_id = n\<rparr>) [it] topic_name))
              [it] topic_name)) =
           Some [(dedupe_key_of sha1 it, Some 2)]"
proof -
  let ?k = "dedupe_key_of sha1 it"
  let ?c0 = "\<lparr>rows = [], faults = fs, next_id = n\<rparr>"
  let ?c1 = "snd (upsert_deals_item sha1 loc now1 topic_name no_stats ?c0 it)"
  let ?d1 = "update_row (build_data sha1 loc now1 topic_name it new None) (default_row n ?k)"
  have first: "rows ?c1 = [?d1]" and f1: "True \<notin> set (faults ?c1)"
    using new_record_written [OF assms(1), of ?c0 sha1 loc now1 topic_name no_stats] assms(2)
    by simp_all
  have k1: "d_dedupe_key ?d1 = ?k" and s1: "d_status ?d1 \<noteq> ''archived''"
    and n1: "d_seen_count ?d1 = Some 1"
    by (simp_all add: default_row_def update_row_def build_data_def revive_def next_seen_count_def)
  let ?c2 = "snd (upsert_deals_item sha1 loc now2 topic_name no_stats ?c1 it)"
  let ?d2 = "update_row (build_data sha1 loc now2 topic_name it new (Some ?d1)) ?d1"
  have second: "rows ?c2 = [?d2]"
    using seen_record_written [OF assms(1) f1 first k1 s1, of loc now2 topic_name no_stats]
    by simp
  have k2: "d_dedupe_key ?d2 = ?k" and n2: "d_seen_count ?d2 = Some 2"
    using k1 n1 by (simp_all add: update_row_def build_data_def next_seen_count_def)
  show ?thesis
    using first second k1 n1 k2 n2
    by (simp add: upsert_deals_def upsert_deals_loop_single del: upsert_deals_loop.simps)
qed

theorem same_record_twice_gives_one_deal_witness:
  "\<forall>sha1.
     map_option (\<lambda>c. map (\<lambda>d. (d_dedupe_key d, d_seen_count d)) (rows c))
       (snd (upsert_deals sha1 0 1000000000000 (Some \<lparr>rows = [], faults = [], next_id = 1\<rparr>)
          [sample_item] ''ai'')) =
       Some [(''url:'' @ sha1 ''https://example.com/blog/post'', Some 1)] \<and>
     map_option (\<lambda>c. map (\<lambda>d. (d_dedupe_key d, d_seen_count d)) (rows c))
       (snd (upsert_deals sha1 0 1000060000000
          (snd (upsert_deals sha1 0 1000000000000 (Some \<lparr>rows = [], faults = [], next_id = 1\<rparr>)
             [sample_item] ''ai''))
          [sample_item] ''ai'')) =
       Some [(''url:'' @ sha1 ''https://example.com/blog/post'', Some 2)]"
proof
  fix sha1 :: "string \<Rightarrow> string"
  have e: "True \<notin> set ([] :: bool list)"
    by simp
  show "map_option (\<lambda>c. map (\<lambda>d. (d_dedupe_key d, d_seen_count d)) (rows c))
       (snd (upsert_deals sha1 0 1000000000000 (Some \<lparr>rows = [], faults = [], next_id = 1\<rparr>)
          [sample_item] ''ai'')) =
       Some [(''url:'' @ sha1 ''https://example.com/blog/post'', Some 1)] \<and>
     map_option (\<lambda>c. map (\<lambda>d. (d_dedupe_key d, d_seen_count d)) (rows c))
       (snd (upsert_deals sha1 0 1000060000000
          (snd (upsert_deals sha1 0 1000000000000 (Some \<lparr>rows = [], faults = [], next_id = 1\<rparr>)
             [sample_item] ''ai''))
          [sample_item] ''ai'')) =
       Some [(''url:'' @ sha1 ''https://example.com/blog/post'', Some 2)]"
    using same_record_twice_gives_one_deal [OF sample_accepted e,
        of sha1 0 1000000000000 1 "''ai''" 1000060000000]
    by (simp add: sample_key)
qed

section \<open>A failing health check\<close>

lemma touched_store_without_failure:
  "fst (health_check_deals (Some \<lparr>rows = [touched_row], faults = [], next_id = 8\<rparr>)
        (Some (now_utc 4000)) 5000) =
     \<lparr>evidence_over_20 = 0, seen_count_null = 1, latest_last_seen_at = Some (AwareText 4500 0),
      archived_updated_last_2h = 1\<rparr> \<and>
   main_finish \<lparr>rows = [touched_row], faults = [], next_id = 8\<rparr> 4000 5000 = 1"
  by (simp add: health_check_deals_def main_finish_def health_exit_def reactivate_dismissed_deals_def
      store_call_def seen_recently_def touched_row_def archived_row_def sample_row_def later_text_def
      threshold_time_def now_utc_def archived_after_def instant_of_def)



section \<open>The characters of a lower-cased, parsed and decoded URL\<close>


















lemma fst_partition_at_free: "d \<notin> set (fst (partition_at d s))"
  by (auto simp add: partition_at_def dest: set_takeWhileD)




lemma decode1: "n < 128 \<Longrightarrow> utf8_decode (n # r) = n # utf8_decode r"
  by simp





























































































section \<open>normalize_url applied twice\<close>







end
